theory Spec2Isabelle
  imports Main "HOL-Library.Word"
begin

unbundle bit_operations_syntax

section \<open>Data model of Kernel/Memory.cpp\<close>

text \<open>
  \<^verbatim>\<open>uint64_t\<close> and \<^verbatim>\<open>size_t\<close> are 64-bit words: \<open>+\<close> and \<open>-\<close> wrap around,
  \<open>\<le>\<close> and \<open><\<close> compare unsigned. \<^verbatim>\<open>int64_t\<close> arguments are the same words read
  through \<open>sint\<close>. The \<^verbatim>\<open>int\<close> protection code and flags are integers.
\<close>

type_synonym u64 = "64 word"

text \<open>
  Modelled from the spec: the enumerations \<^verbatim>\<open>VirtualMemory::Mode\<close> and
  \<^verbatim>\<open>Graphics::GpuMemoryMode\<close> are declared in headers outside the source file; the
  constructors are the access modes of section 2 of the specification and the two
  GPU visibility states the source file uses.
\<close>

datatype Mode = Mode_NoAccess | Mode_Read | Mode_ReadWrite | Mode_Execute
  | Mode_ExecuteRead | Mode_ExecuteReadWrite

datatype GpuMemoryMode = Gpu_NoAccess | Gpu_ReadWrite

text \<open>
  \<^verbatim>\<open>FlexibleMemory::AllocatedBlock\<close> holds the five mapping fields;
  \<^verbatim>\<open>PhysicalMemory::AllocatedBlock\<close> holds the same five fields and the physical
  range in front of them, so it is the extension of the first record by
  \<open>start_addr\<close> and \<open>size_b\<close> (the field \<^verbatim>\<open>size\<close> of the source).
\<close>

record Flexible_AllocatedBlock =
  map_vaddr :: u64
  map_size :: u64
  prot :: int
  mode :: Mode
  gpu_mode :: GpuMemoryMode

record Physical_AllocatedBlock = Flexible_AllocatedBlock +
  start_addr :: u64
  size_b :: u64

text \<open>
  The member \<^verbatim>\<open>m_allocated\<close> of each manager is a vector in insertion order.
  The mutex is not part of the model: every operation is taken as one atomic step.
\<close>

type_synonym PhysicalMemory = "Physical_AllocatedBlock list"
type_synonym FlexibleMemory = "Flexible_AllocatedBlock list"

text \<open>An output pointer of the source is either null or points to a cell of the caller.\<close>

datatype ptr = nullptr | valid_ptr


section \<open>PhysicalMemory\<close>

definition get_aligned_pos :: "u64 \<Rightarrow> u64 \<Rightarrow> u64" where
  "get_aligned_pos pos align =
     (if align \<noteq> 0 then (pos + (align - 1)) AND NOT (align - 1) else pos)"

text \<open>The first loop of \<^verbatim>\<open>PhysicalMemory::Alloc\<close>, with \<open>free_pos\<close> as accumulator.\<close>

fun Alloc_free_pos :: "PhysicalMemory \<Rightarrow> u64 \<Rightarrow> u64" where
  "Alloc_free_pos [] free_pos = free_pos"
| "Alloc_free_pos (b # bs) free_pos =
     (let n = start_addr b + size_b b
      in Alloc_free_pos bs (if n > free_pos then n else free_pos))"

text \<open>The block \<^verbatim>\<open>PhysicalMemory::Alloc\<close> appends on success.\<close>

definition Alloc_new_block :: "u64 \<Rightarrow> u64 \<Rightarrow> Physical_AllocatedBlock" where
  "Alloc_new_block free_pos len =
     \<lparr>map_vaddr = 0, map_size = 0, prot = 0, mode = Mode_NoAccess, gpu_mode = Gpu_NoAccess,
      start_addr = free_pos, size_b = len\<rparr>"

text \<open>
  \<^verbatim>\<open>PhysicalMemory::Alloc\<close>: the result \<open>Some a\<close> stands for \<^verbatim>\<open>true\<close> with \<open>a\<close>
  written through \<^verbatim>\<open>phys_addr_out\<close>, \<open>None\<close> for \<^verbatim>\<open>false\<close>.
\<close>

definition PhysicalMemory_Alloc ::
  "PhysicalMemory \<Rightarrow> u64 \<Rightarrow> u64 \<Rightarrow> u64 \<Rightarrow> u64 \<Rightarrow> ptr \<Rightarrow> u64 option \<times> PhysicalMemory" where
  "PhysicalMemory_Alloc m search_start search_end len alignment phys_addr_out =
     (if phys_addr_out = nullptr then (None, m)
      else
        let free_pos = get_aligned_pos (Alloc_free_pos m 0) alignment
        in if free_pos \<ge> search_start \<and> free_pos + len \<le> search_end
           then (Some free_pos, m @ [Alloc_new_block free_pos len])
           else (None, m))"

text \<open>
  The loop of \<^verbatim>\<open>PhysicalMemory::Release\<close>: the index and the block of the first
  exact match. The source counts the index in a \<^verbatim>\<open>uint32_t\<close>, the index type of the
  vector, so the count never exceeds the vector's length.
\<close>

fun Release_loop :: "PhysicalMemory \<Rightarrow> nat \<Rightarrow> u64 \<Rightarrow> u64 \<Rightarrow> (nat \<times> Physical_AllocatedBlock) option" where
  "Release_loop [] index start len = None"
| "Release_loop (b # bs) index start len =
     (if start = start_addr b \<and> len = size_b b then Some (index, b)
      else Release_loop bs (index + 1) start len)"

definition RemoveAt :: "nat \<Rightarrow> 'a list \<Rightarrow> 'a list" where
  "RemoveAt index xs = take index xs @ drop (Suc index) xs"

text \<open>
  \<^verbatim>\<open>PhysicalMemory::Release\<close>: \<open>Some (vaddr, size, gpu_mode)\<close> stands for \<^verbatim>\<open>true\<close>
  with the three values written through the output pointers, \<open>None\<close> for \<^verbatim>\<open>false\<close>
  with nothing written. The pointers are addresses of locals at the only call site,
  so the three null-pointer aborts in front of the loop are not taken.
\<close>

definition PhysicalMemory_Release ::
  "PhysicalMemory \<Rightarrow> u64 \<Rightarrow> u64 \<Rightarrow> (u64 \<times> u64 \<times> GpuMemoryMode) option \<times> PhysicalMemory" where
  "PhysicalMemory_Release m start len =
     (case Release_loop m 0 start len of
        Some (index, b) \<Rightarrow> (Some (map_vaddr b, map_size b, gpu_mode b), RemoveAt index m)
      | None \<Rightarrow> (None, m))"

text \<open>\<^verbatim>\<open>PhysicalMemory::Map\<close>: the boolean result and the list after the call.\<close>

fun PhysicalMemory_Map ::
  "PhysicalMemory \<Rightarrow> u64 \<Rightarrow> u64 \<Rightarrow> u64 \<Rightarrow> int \<Rightarrow> Mode \<Rightarrow> GpuMemoryMode \<Rightarrow> bool \<times> PhysicalMemory" where
  "PhysicalMemory_Map [] vaddr phys_addr len pr md gm = (False, [])"
| "PhysicalMemory_Map (b # bs) vaddr phys_addr len pr md gm =
     (if phys_addr \<ge> start_addr b \<and> phys_addr < start_addr b + size_b b
      then (if map_vaddr b \<noteq> 0 \<or> map_size b \<noteq> 0 then (False, b # bs)
            else (True, b\<lparr>map_vaddr := vaddr, map_size := len, prot := pr, mode := md,
                          gpu_mode := gm\<rparr> # bs))
      else (case PhysicalMemory_Map bs vaddr phys_addr len pr md gm of
              (r, bs') \<Rightarrow> (r, b # bs')))"

text \<open>
  \<^verbatim>\<open>PhysicalMemory::Unmap\<close>: \<open>Some g\<close> stands for \<^verbatim>\<open>true\<close> with \<open>g\<close> written
  through \<^verbatim>\<open>gpu_mode\<close> (the address of a local at the only call site).
\<close>

fun PhysicalMemory_Unmap ::
  "PhysicalMemory \<Rightarrow> u64 \<Rightarrow> u64 \<Rightarrow> GpuMemoryMode option \<times> PhysicalMemory" where
  "PhysicalMemory_Unmap [] vaddr sz = (None, [])"
| "PhysicalMemory_Unmap (b # bs) vaddr sz =
     (if map_vaddr b = vaddr \<and> map_size b = sz
      then (Some (gpu_mode b),
            b\<lparr>gpu_mode := Gpu_NoAccess, map_size := 0, map_vaddr := 0, prot := 0,
              mode := Mode_NoAccess\<rparr> # bs)
      else (case PhysicalMemory_Unmap bs vaddr sz of (r, bs') \<Rightarrow> (r, b # bs')))"

text \<open>
  The predicate both \<^verbatim>\<open>Find\<close> members hand to \<^verbatim>\<open>std::any_of\<close>, and the values it
  writes through the output pointers that are not null. \<^verbatim>\<open>std::any_of\<close> stops at the
  first block for which the predicate holds.
\<close>

definition Find_contains :: "u64 \<Rightarrow> 'a Flexible_AllocatedBlock_scheme \<Rightarrow> bool" where
  "Find_contains vaddr b \<longleftrightarrow> vaddr \<ge> map_vaddr b \<and> vaddr < map_vaddr b + map_size b"

definition Find_outputs ::
  "'a Flexible_AllocatedBlock_scheme \<Rightarrow> u64 \<times> u64 \<times> int \<times> Mode \<times> GpuMemoryMode" where
  "Find_outputs b = (map_vaddr b, map_size b, prot b, mode b, gpu_mode b)"

definition PhysicalMemory_Find ::
  "PhysicalMemory \<Rightarrow> u64 \<Rightarrow> (u64 \<times> u64 \<times> int \<times> Mode \<times> GpuMemoryMode) option" where
  "PhysicalMemory_Find m vaddr = map_option Find_outputs (find (Find_contains vaddr) m)"


section \<open>FlexibleMemory\<close>

definition FlexibleMemory_Map ::
  "FlexibleMemory \<Rightarrow> u64 \<Rightarrow> u64 \<Rightarrow> int \<Rightarrow> Mode \<Rightarrow> GpuMemoryMode \<Rightarrow> bool \<times> FlexibleMemory" where
  "FlexibleMemory_Map m vaddr len pr md gm =
     (True, m @ [\<lparr>map_vaddr = vaddr, map_size = len, prot = pr, mode = md, gpu_mode = gm\<rparr>])"

fun Unmap_loop :: "FlexibleMemory \<Rightarrow> nat \<Rightarrow> u64 \<Rightarrow> u64 \<Rightarrow> (nat \<times> Flexible_AllocatedBlock) option" where
  "Unmap_loop [] index vaddr sz = None"
| "Unmap_loop (b # bs) index vaddr sz =
     (if map_vaddr b = vaddr \<and> map_size b = sz then Some (index, b)
      else Unmap_loop bs (index + 1) vaddr sz)"

definition FlexibleMemory_Unmap ::
  "FlexibleMemory \<Rightarrow> u64 \<Rightarrow> u64 \<Rightarrow> GpuMemoryMode option \<times> FlexibleMemory" where
  "FlexibleMemory_Unmap m vaddr sz =
     (case Unmap_loop m 0 vaddr sz of
        Some (index, b) \<Rightarrow> (Some (gpu_mode b), RemoveAt index m)
      | None \<Rightarrow> (None, m))"

definition FlexibleMemory_Find ::
  "FlexibleMemory \<Rightarrow> u64 \<Rightarrow> (u64 \<times> u64 \<times> int \<times> Mode \<times> GpuMemoryMode) option" where
  "FlexibleMemory_Find m vaddr = map_option Find_outputs (find (Find_contains vaddr) m)"


section \<open>The kernel entry points\<close>

text \<open>
  Modelled from the spec: the status codes come from a header outside the source
  file; section 6 of the specification names them (success, invalid-argument,
  out-of-memory, try-again, resource-busy, access-denied).
\<close>

datatype status = OK | KERNEL_ERROR_EINVAL | KERNEL_ERROR_ENOMEM | KERNEL_ERROR_EAGAIN
  | KERNEL_ERROR_EBUSY | KERNEL_ERROR_EACCES

text \<open>
  The collaborators (host address-space reservation, GPU memory tracker) are outside
  the source file. Each call the entry points make to them is recorded, in order, with
  its arguments; the address a reservation returns is an argument of the model.
\<close>

datatype collaborator_call =
    Call_VirtualMemory_Alloc u64 u64 Mode u64
  | Call_VirtualMemory_AllocAligned u64 u64 Mode u64 u64
  | Call_VirtualMemory_Free u64
  | Call_GraphicsRunWait
  | Call_GpuMemoryFree u64 u64
  | Call_GpuMemorySetAllocatedRange u64 u64

text \<open>
  The two managers are constructed at subsystem initialisation and never deleted, so
  the state of the entry points always holds both block lists.
\<close>

record KernelState =
  g_physical_memory :: PhysicalMemory
  g_flexible_memory :: FlexibleMemory
  calls :: "collaborator_call list"

text \<open>
  An entry point either terminates the emulator (\<^verbatim>\<open>EXIT\<close>,
  \<^verbatim>\<open>EXIT_NOT_IMPLEMENTED\<close>) or returns to the guest.
\<close>

datatype 'a outcome = EXIT | Return 'a

text \<open>The \<^verbatim>\<open>switch (prot)\<close> of \<^verbatim>\<open>KernelMapNamedFlexibleMemory\<close>; \<open>None\<close> is its default branch.\<close>

definition MapNamedFlexibleMemory_switch :: "int \<Rightarrow> Mode option" where
  "MapNamedFlexibleMemory_switch pr =
     (if pr = 0 then Some Mode_NoAccess
      else if pr = 1 then Some Mode_Read
      else if pr = 2 \<or> pr = 3 then Some Mode_ReadWrite
      else if pr = 4 then Some Mode_Execute
      else if pr = 5 then Some Mode_ExecuteRead
      else if pr = 6 \<or> pr = 7 then Some Mode_ExecuteReadWrite
      else None)"

text \<open>
  \<^verbatim>\<open>KernelMapNamedFlexibleMemory\<close> after its \<^verbatim>\<open>switch\<close>, with the locals \<open>md\<close>
  (\<^verbatim>\<open>mode\<close>) and \<open>gm\<close> (\<^verbatim>\<open>gpu_mode\<close>). \<open>out_addr\<close> is what
  \<^verbatim>\<open>VirtualMemory::Alloc\<close> returns. The result carries the status, the value left in
  \<^verbatim>\<open>*addr_in_out\<close> and the state.
\<close>

definition MapNamedFlexibleMemory_tail ::
  "KernelState \<Rightarrow> u64 \<Rightarrow> u64 \<Rightarrow> int \<Rightarrow> Mode \<Rightarrow> GpuMemoryMode \<Rightarrow> u64
     \<Rightarrow> (status \<times> u64 \<times> KernelState) outcome" where
  "MapNamedFlexibleMemory_tail st in_addr len pr md gm out_addr =
     (let st1 = st\<lparr>calls := calls st @ [Call_VirtualMemory_Alloc in_addr len md out_addr]\<rparr>
      in (case FlexibleMemory_Map (g_flexible_memory st1) out_addr len pr md gm of
            (False, fm) \<Rightarrow>
              Return (KERNEL_ERROR_ENOMEM, out_addr,
                st1\<lparr>g_flexible_memory := fm,
                    calls := calls st1 @ [Call_VirtualMemory_Free out_addr]\<rparr>)
          | (True, fm) \<Rightarrow>
              if out_addr = 0
              then Return (KERNEL_ERROR_ENOMEM, out_addr, st1\<lparr>g_flexible_memory := fm\<rparr>)
              else Return (OK, out_addr, st1\<lparr>g_flexible_memory := fm\<rparr>)))"

text \<open>
  \<^verbatim>\<open>KernelMapNamedFlexibleMemory\<close>. \<open>addr_in_out\<close> is \<open>None\<close> for a null pointer and
  \<open>Some in_addr\<close> for a pointer to a cell holding \<open>in_addr\<close>. The local
  \<^verbatim>\<open>gpu_mode\<close> keeps its initial value.
\<close>

definition KernelMapNamedFlexibleMemory ::
  "KernelState \<Rightarrow> u64 option \<Rightarrow> u64 \<Rightarrow> int \<Rightarrow> int \<Rightarrow> string \<Rightarrow> u64
     \<Rightarrow> (status \<times> u64 \<times> KernelState) outcome" where
  "KernelMapNamedFlexibleMemory st addr_in_out len pr flags name out_addr =
     (case addr_in_out of
        None \<Rightarrow> EXIT
      | Some in_addr \<Rightarrow>
          if flags \<noteq> 0 then EXIT
          else
            (case MapNamedFlexibleMemory_switch pr of
               None \<Rightarrow> EXIT
             | Some md \<Rightarrow> MapNamedFlexibleMemory_tail st in_addr len pr md Gpu_NoAccess out_addr))"

text \<open>
  The tail of \<^verbatim>\<open>KernelMunmap\<close> after a successful unmap: the calls to the
  collaborators, in order.
\<close>

definition Munmap_teardown :: "u64 \<Rightarrow> u64 \<Rightarrow> GpuMemoryMode \<Rightarrow> collaborator_call list" where
  "Munmap_teardown vaddr len gm =
     (if vaddr \<noteq> 0 \<or> len \<noteq> 0 then [Call_VirtualMemory_Free vaddr] else []) @
     (if gm \<noteq> Gpu_NoAccess then [Call_GraphicsRunWait, Call_GpuMemoryFree vaddr len] else [])"

text \<open>
  \<^verbatim>\<open>KernelMunmap\<close>. The test \<^verbatim>\<open>vaddr < 0\<close> of the source compares an unsigned
  value with zero.
\<close>

definition KernelMunmap :: "KernelState \<Rightarrow> u64 \<Rightarrow> u64 \<Rightarrow> (status \<times> KernelState) outcome" where
  "KernelMunmap st vaddr len =
     (if vaddr < 0 \<or> len = 0 then Return (KERNEL_ERROR_EINVAL, st)
      else
        (case PhysicalMemory_Unmap (g_physical_memory st) vaddr len of
           (Some gm, pm) \<Rightarrow>
             Return (OK, st\<lparr>g_physical_memory := pm,
                            calls := calls st @ Munmap_teardown vaddr len gm\<rparr>)
         | (None, pm) \<Rightarrow>
             (case FlexibleMemory_Unmap (g_flexible_memory st) vaddr len of
                (Some gm, fm) \<Rightarrow>
                  Return (OK, st\<lparr>g_physical_memory := pm, g_flexible_memory := fm,
                                 calls := calls st @ Munmap_teardown vaddr len gm\<rparr>)
              | (None, fm) \<Rightarrow> EXIT)))"

text \<open>
  \<^verbatim>\<open>KernelAllocateDirectMemory\<close>. \<open>search_start\<close> and \<open>search_end\<close> are
  \<^verbatim>\<open>int64_t\<close>: compared signed, handed to \<^verbatim>\<open>Alloc\<close> as the same bits. The result
  carries the status, the value written through \<^verbatim>\<open>phys_addr_out\<close> (if any) and the
  state.
\<close>

definition KernelAllocateDirectMemory ::
  "KernelState \<Rightarrow> u64 \<Rightarrow> u64 \<Rightarrow> u64 \<Rightarrow> u64 \<Rightarrow> int \<Rightarrow> ptr \<Rightarrow> status \<times> u64 option \<times> KernelState" where
  "KernelAllocateDirectMemory st search_start search_end len alignment memory_type phys_addr_out =
     (if sint search_start < 0 \<or> sint search_end \<le> sint search_start \<or> len = 0
         \<or> phys_addr_out = nullptr
      then (KERNEL_ERROR_EINVAL, None, st)
      else
        (case PhysicalMemory_Alloc (g_physical_memory st) search_start search_end len alignment
                valid_ptr of
           (None, pm) \<Rightarrow> (KERNEL_ERROR_EAGAIN, None, st\<lparr>g_physical_memory := pm\<rparr>)
         | (Some addr, pm) \<Rightarrow> (OK, Some addr, st\<lparr>g_physical_memory := pm\<rparr>)))"

text \<open>The \<^verbatim>\<open>switch (prot)\<close> of \<^verbatim>\<open>KernelMapDirectMemory\<close>; \<open>None\<close> is its default branch.\<close>

definition MapDirectMemory_switch :: "int \<Rightarrow> (Mode \<times> GpuMemoryMode) option" where
  "MapDirectMemory_switch pr =
     (if pr = 0x00 then Some (Mode_NoAccess, Gpu_NoAccess)
      else if pr = 0x01 then Some (Mode_Read, Gpu_NoAccess)
      else if pr = 0x02 \<or> pr = 0x03 then Some (Mode_ReadWrite, Gpu_NoAccess)
      else if pr = 0x04 then Some (Mode_Execute, Gpu_NoAccess)
      else if pr = 0x05 then Some (Mode_ExecuteRead, Gpu_NoAccess)
      else if pr = 0x06 \<or> pr = 0x07 then Some (Mode_ExecuteReadWrite, Gpu_NoAccess)
      else if pr = 0x32 \<or> pr = 0x33 then Some (Mode_ReadWrite, Gpu_ReadWrite)
      else None)"

text \<open>
  \<^verbatim>\<open>KernelMapDirectMemory\<close> after its \<^verbatim>\<open>switch\<close>, with the locals \<open>md\<close> and
  \<open>gm\<close>; \<open>out_addr\<close> is what \<^verbatim>\<open>VirtualMemory::AllocAligned\<close> returns.
\<close>

definition MapDirectMemory_tail ::
  "KernelState \<Rightarrow> u64 \<Rightarrow> u64 \<Rightarrow> int \<Rightarrow> Mode \<Rightarrow> GpuMemoryMode \<Rightarrow> u64 \<Rightarrow> u64 \<Rightarrow> u64
     \<Rightarrow> (status \<times> u64 \<times> KernelState) outcome" where
  "MapDirectMemory_tail st in_addr len pr md gm direct_memory_start alignment out_addr =
     (let st1 = st\<lparr>calls := calls st @
                     [Call_VirtualMemory_AllocAligned in_addr len md alignment out_addr]\<rparr>
      in if out_addr = 0 then Return (KERNEL_ERROR_ENOMEM, out_addr, st1)
         else
           (case PhysicalMemory_Map (g_physical_memory st1) out_addr direct_memory_start
                   len pr md gm of
              (False, pm) \<Rightarrow>
                Return (KERNEL_ERROR_EBUSY, out_addr,
                  st1\<lparr>g_physical_memory := pm,
                      calls := calls st1 @ [Call_VirtualMemory_Free out_addr]\<rparr>)
            | (True, pm) \<Rightarrow>
                Return (OK, out_addr,
                  st1\<lparr>g_physical_memory := pm,
                      calls := calls st1 @
                        (if gm \<noteq> Gpu_NoAccess
                         then [Call_GpuMemorySetAllocatedRange out_addr len]
                         else [])\<rparr>)))"

text \<open>\<^verbatim>\<open>KernelMapDirectMemory\<close>; \<open>addr\<close> is as for \<^verbatim>\<open>KernelMapNamedFlexibleMemory\<close>.\<close>

definition KernelMapDirectMemory ::
  "KernelState \<Rightarrow> u64 option \<Rightarrow> u64 \<Rightarrow> int \<Rightarrow> int \<Rightarrow> u64 \<Rightarrow> u64 \<Rightarrow> u64
     \<Rightarrow> (status \<times> u64 \<times> KernelState) outcome" where
  "KernelMapDirectMemory st addr len pr flags direct_memory_start alignment out_addr =
     (case addr of
        None \<Rightarrow> EXIT
      | Some in_addr \<Rightarrow>
          if flags \<noteq> 0 then EXIT
          else
            (case MapDirectMemory_switch pr of
               None \<Rightarrow> EXIT
             | Some (md, gm) \<Rightarrow>
                 MapDirectMemory_tail st in_addr len pr md gm direct_memory_start alignment
                   out_addr))"

text \<open>
  \<^verbatim>\<open>KernelQueryMemoryProtection\<close>. \<open>addr\<close> is the queried pointer as an integer; the
  result carries the status and the values written through \<^verbatim>\<open>start\<close>, \<^verbatim>\<open>end\<close> and
  \<^verbatim>\<open>prot\<close> (\<open>None\<close> where the pointer is null or nothing is written).
\<close>

definition Query_outputs ::
  "ptr \<Rightarrow> ptr \<Rightarrow> ptr \<Rightarrow> u64 \<Rightarrow> u64 \<Rightarrow> int \<Rightarrow> u64 option \<times> u64 option \<times> int option" where
  "Query_outputs start_out end_out prot_out base len p =
     (if start_out \<noteq> nullptr then Some base else None,
      if end_out \<noteq> nullptr then Some (base + len - 1) else None,
      if prot_out \<noteq> nullptr then Some p else None)"

definition KernelQueryMemoryProtection ::
  "KernelState \<Rightarrow> u64 \<Rightarrow> ptr \<Rightarrow> ptr \<Rightarrow> ptr
     \<Rightarrow> (status \<times> u64 option \<times> u64 option \<times> int option) outcome" where
  "KernelQueryMemoryProtection st addr start_out end_out prot_out =
     (if addr = 0 then EXIT
      else
        (case PhysicalMemory_Find (g_physical_memory st) addr of
           Some (base, len, p, md, gm) \<Rightarrow>
             Return (OK, Query_outputs start_out end_out prot_out base len p)
         | None \<Rightarrow>
             (case FlexibleMemory_Find (g_flexible_memory st) addr of
                Some (base, len, p, md, gm) \<Rightarrow>
                  Return (OK, Query_outputs start_out end_out prot_out base len p)
              | None \<Rightarrow> Return (KERNEL_ERROR_EACCES, None, None, None))))"

section \<open>Notions used in the statements\<close>

text \<open>The loop test of \<^verbatim>\<open>PhysicalMemory::Release\<close>: the request equals the block's physical range.\<close>

definition Release_match :: "u64 \<Rightarrow> u64 \<Rightarrow> Physical_AllocatedBlock \<Rightarrow> bool" where
  "Release_match start len b \<longleftrightarrow> start = start_addr b \<and> len = size_b b"

text \<open>The loop test of both \<^verbatim>\<open>Unmap\<close> members: the request equals the entry's mapping.\<close>

definition Unmap_match :: "u64 \<Rightarrow> u64 \<Rightarrow> 'a Flexible_AllocatedBlock_scheme \<Rightarrow> bool" where
  "Unmap_match vaddr sz b \<longleftrightarrow> map_vaddr b = vaddr \<and> map_size b = sz"

text \<open>The block \<^verbatim>\<open>PhysicalMemory::Unmap\<close> leaves in place of the one it matched.\<close>

definition Unmap_clear :: "Physical_AllocatedBlock \<Rightarrow> Physical_AllocatedBlock" where
  "Unmap_clear b = b\<lparr>gpu_mode := Gpu_NoAccess, map_size := 0, map_vaddr := 0, prot := 0,
              mode := Mode_NoAccess\<rparr>"

text \<open>Concrete entries for the evaluated instances.\<close>

definition ex_mapped_block :: Physical_AllocatedBlock where
  "ex_mapped_block =
     \<lparr>map_vaddr = 0x1000, map_size = 0x10, prot = 0x33, mode = Mode_ReadWrite,
      gpu_mode = Gpu_ReadWrite, start_addr = 0, size_b = 0x10\<rparr>"

definition ex_flexible_block :: Flexible_AllocatedBlock where
  "ex_flexible_block =
     \<lparr>map_vaddr = 0x2000, map_size = 0x20, prot = 1, mode = Mode_Read, gpu_mode = Gpu_NoAccess\<rparr>"

text \<open>
  The table of section 4.1 of the specification, row by row: the protection code, its
  access mode and its GPU mode. A code without a row is the table's \<open>fatal\<close>.
\<close>

definition spec_protection_table :: "(int \<times> Mode \<times> GpuMemoryMode) list" where
  "spec_protection_table =
     [(0, Mode_NoAccess, Gpu_NoAccess),
      (1, Mode_Read, Gpu_NoAccess),
      (2, Mode_ReadWrite, Gpu_NoAccess),
      (3, Mode_ReadWrite, Gpu_NoAccess),
      (4, Mode_Execute, Gpu_NoAccess),
      (5, Mode_ExecuteRead, Gpu_NoAccess),
      (6, Mode_ExecuteReadWrite, Gpu_NoAccess),
      (7, Mode_ExecuteReadWrite, Gpu_NoAccess),
      (0x32, Mode_ReadWrite, Gpu_ReadWrite),
      (0x33, Mode_ReadWrite, Gpu_ReadWrite)]"

text \<open>The rows marked \<open>direct-memory map only\<close> are left out for the flexible entry point.\<close>

definition spec_flexible_table :: "(int \<times> Mode \<times> GpuMemoryMode) list" where
  "spec_flexible_table = filter (\<lambda>(c, md, gm). c \<noteq> 0x32 \<and> c \<noteq> 0x33) spec_protection_table"

text \<open>A state of the entry points with both managers empty and no call made.\<close>

definition empty_state :: KernelState where
  "empty_state = \<lparr>g_physical_memory = [], g_flexible_memory = [], calls = []\<rparr>"

text \<open>
  The entry \<^verbatim>\<open>FlexibleMemory::Map\<close> appends when the reservation of
  \<^verbatim>\<open>KernelMapNamedFlexibleMemory\<close> returned address 0, and the state the entry point
  leaves behind in that case.
\<close>

definition zero_address_mapping :: "u64 \<Rightarrow> int \<Rightarrow> Mode \<Rightarrow> Flexible_AllocatedBlock" where
  "zero_address_mapping len pr md =
     \<lparr>map_vaddr = 0, map_size = len, prot = pr, mode = md, gpu_mode = Gpu_NoAccess\<rparr>"

definition after_failed_reservation :: "KernelState \<Rightarrow> u64 \<Rightarrow> u64 \<Rightarrow> int \<Rightarrow> Mode \<Rightarrow> KernelState" where
  "after_failed_reservation st in_addr len pr md =
     st\<lparr>calls := calls st @ [Call_VirtualMemory_Alloc in_addr len md 0],
        g_flexible_memory := g_flexible_memory st @ [zero_address_mapping len pr md]\<rparr>"

text \<open>A state with one mapped physical block and one flexible mapping.\<close>

definition ex_state :: KernelState where
  "ex_state = \<lparr>g_physical_memory = [ex_mapped_block], g_flexible_memory = [ex_flexible_block],
                calls = []\<rparr>"

text \<open>A flexible mapping at an address that is negative when read as \<^verbatim>\<open>int64_t\<close>.\<close>

definition ex_high_mapping :: Flexible_AllocatedBlock where
  "ex_high_mapping =
     \<lparr>map_vaddr = 0x8000000000000000, map_size = 0x1000, prot = 3, mode = Mode_ReadWrite,
      gpu_mode = Gpu_NoAccess\<rparr>"

text \<open>
  The entry at index \<open>i\<close> is mapped over \<open>[v, v + len)\<close>, the range is not empty and
  ends below \<open>2^64\<close>, and no other entry contains \<open>v\<close>, \<open>v + len - 1\<close> or \<open>v + len\<close>.
\<close>

definition sole_range :: "'a Flexible_AllocatedBlock_scheme list \<Rightarrow> nat \<Rightarrow> u64 \<Rightarrow> u64 \<Rightarrow> bool" where
  "sole_range m i v len \<longleftrightarrow>
     i < length m \<and> map_vaddr (m ! i) = v \<and> map_size (m ! i) = len \<and>
     0 < len \<and> unat v + unat len < 2 ^ 64 \<and>
     \<not> list_ex (\<lambda>b. Find_contains v b \<or> Find_contains (v + len - 1) b \<or> Find_contains (v + len) b)
         (RemoveAt i m)"

text \<open>Mappings at the top of the address space, next to another mapping, and of length 0.\<close>

definition ex_top_mapping :: Flexible_AllocatedBlock where
  "ex_top_mapping =
     \<lparr>map_vaddr = 0xFFFFFFFFFFFFF000, map_size = 0x1000, prot = 3, mode = Mode_ReadWrite,
      gpu_mode = Gpu_NoAccess\<rparr>"

definition ex_adjacent_mapping :: Flexible_AllocatedBlock where
  "ex_adjacent_mapping =
     \<lparr>map_vaddr = 0x2020, map_size = 0x20, prot = 3, mode = Mode_ReadWrite,
      gpu_mode = Gpu_NoAccess\<rparr>"

definition ex_empty_mapping :: Flexible_AllocatedBlock where
  "ex_empty_mapping =
     \<lparr>map_vaddr = 0x3000, map_size = 0, prot = 1, mode = Mode_Read, gpu_mode = Gpu_NoAccess\<rparr>"

text \<open>The second block of the evaluated round trip, mapped at the address of the first.\<close>

definition ex_remapped_block :: Physical_AllocatedBlock where
  "ex_remapped_block =
     \<lparr>map_vaddr = 0x1000, map_size = 0x10, prot = 1, mode = Mode_Read, gpu_mode = Gpu_NoAccess,
      start_addr = 0x10, size_b = 0x10\<rparr>"

text \<open>
  The invariant of a physical block in section 3 of the specification: the block has no
  mapping (address and size 0, both modes \<open>NoAccess\<close>) or an active one (what
  \<^verbatim>\<open>PhysicalMemory::Map\<close> tests before it refuses). \<open>Map_inside\<close> is the test of
  \<^verbatim>\<open>PhysicalMemory::Map\<close> for the block that holds the physical address.
\<close>

definition block_no_mapping :: "Physical_AllocatedBlock \<Rightarrow> bool" where
  "block_no_mapping b \<longleftrightarrow>
     map_vaddr b = 0 \<and> map_size b = 0 \<and> mode b = Mode_NoAccess \<and> gpu_mode b = Gpu_NoAccess"

definition block_active :: "Physical_AllocatedBlock \<Rightarrow> bool" where
  "block_active b \<longleftrightarrow> map_vaddr b \<noteq> 0 \<or> map_size b \<noteq> 0"

definition block_invariant :: "Physical_AllocatedBlock \<Rightarrow> bool" where
  "block_invariant b \<longleftrightarrow> block_no_mapping b \<or> block_active b"

definition Map_inside :: "u64 \<Rightarrow> Physical_AllocatedBlock \<Rightarrow> bool" where
  "Map_inside phys_addr b \<longleftrightarrow> phys_addr \<ge> start_addr b \<and> phys_addr < start_addr b + size_b b"

text \<open>A mapped block whose physical range overlaps a block allocated before it.\<close>

definition ex_overlapping_block :: Physical_AllocatedBlock where
  "ex_overlapping_block =
     \<lparr>map_vaddr = 0x1000, map_size = 0x14, prot = 3, mode = Mode_ReadWrite,
      gpu_mode = Gpu_NoAccess, start_addr = 0, size_b = 0x14\<rparr>"

text \<open>
  The end of a block's physical range as \<^verbatim>\<open>PhysicalMemory::Alloc\<close> computes it, and the
  maximum of the ends over all blocks (0 when there is none).
\<close>

definition block_end :: "Physical_AllocatedBlock \<Rightarrow> u64" where
  "block_end b = start_addr b + size_b b"

definition max_block_end :: "PhysicalMemory \<Rightarrow> u64" where
  "max_block_end m = Max (insert 0 (block_end ` set m))"

text \<open>
  A run of \<^verbatim>\<open>PhysicalMemory::Alloc\<close> calls with nothing in between, each request being
  \<open>(search_start, search_end, len, alignment)\<close>: the returned addresses with their
  lengths when every call succeeds. \<open>no_wrap_sequence\<close> holds when, in every call of the
  run, neither the round-up to the alignment nor the candidate plus the length passes
  \<open>2^64\<close>. \<open>follows_after\<close> is the order of the specification on consecutive results:
  the next address is at least the previous address plus the previous length.
\<close>

type_synonym Alloc_request = "u64 \<times> u64 \<times> u64 \<times> u64"

fun Alloc_sequence :: "PhysicalMemory \<Rightarrow> Alloc_request list \<Rightarrow> (u64 \<times> u64) list option" where
  "Alloc_sequence m [] = Some []"
| "Alloc_sequence m ((search_start, search_end, len, alignment) # rs) =
     (case PhysicalMemory_Alloc m search_start search_end len alignment valid_ptr of
        (None, m') \<Rightarrow> None
      | (Some a, m') \<Rightarrow> map_option ((#) (a, len)) (Alloc_sequence m' rs))"

fun no_wrap_sequence :: "PhysicalMemory \<Rightarrow> Alloc_request list \<Rightarrow> bool" where
  "no_wrap_sequence m [] = True"
| "no_wrap_sequence m ((search_start, search_end, len, alignment) # rs) =
     (let p = Alloc_free_pos m 0; c = get_aligned_pos p alignment
      in (alignment = 0 \<or> unat p + unat (alignment - 1) < 2 ^ 64) \<and>
         unat c + unat len < 2 ^ 64 \<and>
         no_wrap_sequence (m @ [Alloc_new_block c len]) rs)"

definition follows_after :: "u64 \<times> u64 \<Rightarrow> u64 \<times> u64 \<Rightarrow> bool" where
  "follows_after prev next \<longleftrightarrow> unat (fst prev) + unat (snd prev) \<le> unat (fst next)"


section \<open>Properties\<close>

subsection \<open>Exact-match release and unmap\<close>

lemma Release_loop_None:
  "(Release_loop m k start len = None) = (\<forall>b \<in> set m. \<not> Release_match start len b)"
  by (induction m arbitrary: k) (auto simp: Release_match_def)

lemma Release_loop_Some:
  "Release_loop m k start len = Some (i, b) \<Longrightarrow>
     \<exists>j < length m. i = k + j \<and> m ! j = b \<and> Release_match start len b \<and>
       (\<forall>j' < j. \<not> Release_match start len (m ! j'))"
proof (induction m arbitrary: k)
  case Nil
  then show ?case by simp
next
  case (Cons a m)
  show ?case
  proof (cases "Release_match start len a")
    case True
    with Cons.prems show ?thesis by (auto simp: Release_match_def)
  next
    case False
    with Cons.prems have "Release_loop m (Suc k) start len = Some (i, b)"
      by (auto simp: Release_match_def)
    from Cons.IH[OF this] obtain j where j: "j < length m" "i = Suc k + j" "m ! j = b"
      "Release_match start len b" "\<forall>j' < j. \<not> Release_match start len (m ! j')"
      by blast
    with False show ?thesis
      by (intro exI[of _ "Suc j"]) (auto simp: nth_Cons less_Suc_eq_0_disj split: nat.splits)
  qed
qed

lemma Unmap_loop_None:
  "(Unmap_loop m k vaddr sz = None) = (\<forall>b \<in> set m. \<not> Unmap_match vaddr sz b)"
  by (induction m arbitrary: k) (auto simp: Unmap_match_def)

lemma Unmap_loop_Some:
  "Unmap_loop m k vaddr sz = Some (i, b) \<Longrightarrow>
     \<exists>j < length m. i = k + j \<and> m ! j = b \<and> Unmap_match vaddr sz b \<and>
       (\<forall>j' < j. \<not> Unmap_match vaddr sz (m ! j'))"
proof (induction m arbitrary: k)
  case Nil
  then show ?case by simp
next
  case (Cons a m)
  show ?case
  proof (cases "Unmap_match vaddr sz a")
    case True
    with Cons.prems show ?thesis by (auto simp: Unmap_match_def)
  next
    case False
    with Cons.prems have "Unmap_loop m (Suc k) vaddr sz = Some (i, b)"
      by (auto simp: Unmap_match_def)
    from Cons.IH[OF this] obtain j where j: "j < length m" "i = Suc k + j" "m ! j = b"
      "Unmap_match vaddr sz b" "\<forall>j' < j. \<not> Unmap_match vaddr sz (m ! j')"
      by blast
    with False show ?thesis
      by (intro exI[of _ "Suc j"]) (auto simp: nth_Cons less_Suc_eq_0_disj split: nat.splits)
  qed
qed

lemma PhysicalMemory_Unmap_None:
  "\<forall>b \<in> set m. \<not> Unmap_match vaddr sz b \<Longrightarrow> PhysicalMemory_Unmap m vaddr sz = (None, m)"
  by (induction m) (auto simp: Unmap_match_def)

lemma PhysicalMemory_Unmap_Some:
  "PhysicalMemory_Unmap m vaddr sz = (Some g, m') \<Longrightarrow>
     \<exists>i < length m. Unmap_match vaddr sz (m ! i) \<and> (\<forall>j < i. \<not> Unmap_match vaddr sz (m ! j)) \<and>
        g = gpu_mode (m ! i) \<and> m' = m[i := Unmap_clear (m ! i)]"
proof (induction m arbitrary: m')
  case Nil
  then show ?case by simp
next
  case (Cons a m)
  show ?case
  proof (cases "Unmap_match vaddr sz a")
    case True
    with Cons.prems have "g = gpu_mode a \<and> m' = Unmap_clear a # m"
      by (auto simp: Unmap_match_def Unmap_clear_def)
    with True show ?thesis by (intro exI[of _ 0]) simp
  next
    case False
    with Cons.prems obtain m2 where m2: "PhysicalMemory_Unmap m vaddr sz = (Some g, m2)" "m' = a # m2"
      by (auto simp: Unmap_match_def split: prod.splits)
    from Cons.IH[OF m2(1)] obtain i where i: "i < length m" "Unmap_match vaddr sz (m ! i)"
      "\<forall>j < i. \<not> Unmap_match vaddr sz (m ! j)" "g = gpu_mode (m ! i)" "m2 = m[i := Unmap_clear (m ! i)]"
      by blast
    with False m2(2) show ?thesis
      by (intro exI[of _ "Suc i"]) (auto simp: nth_Cons less_Suc_eq_0_disj split: nat.splits)
  qed
qed


lemma RemoveAt_0 [simp]: "RemoveAt 0 (x # xs) = xs"
  by (simp add: RemoveAt_def)

lemma RemoveAt_Suc [simp]: "RemoveAt (Suc i) (x # xs) = x # RemoveAt i xs"
  by (simp add: RemoveAt_def)

lemma PhysicalMemory_Release_Some:
  assumes "PhysicalMemory_Release m start len = (Some r, m')"
  shows "\<exists>i < length m. Release_match start len (m ! i) \<and>
           (\<forall>j < i. \<not> Release_match start len (m ! j)) \<and>
           r = (map_vaddr (m ! i), map_size (m ! i), gpu_mode (m ! i)) \<and> m' = RemoveAt i m"
proof -
  from assms obtain i b where ib: "Release_loop m 0 start len = Some (i, b)"
    and r: "r = (map_vaddr b, map_size b, gpu_mode b)" and m': "m' = RemoveAt i m"
    by (auto simp: PhysicalMemory_Release_def split: option.splits)
  from Release_loop_Some[OF ib] r m' show ?thesis by auto
qed

lemma PhysicalMemory_Release_None:
  "\<not> list_ex (Release_match start len) m \<Longrightarrow> PhysicalMemory_Release m start len = (None, m)"
  using Release_loop_None[of m 0 start len]
  by (simp add: PhysicalMemory_Release_def list_ex_iff)

lemma Release_loop_append_fresh:
  "\<not> list_ex (Release_match start len) m \<Longrightarrow>
     Release_loop (m @ [Alloc_new_block start len]) k start len =
       Some (k + length m, Alloc_new_block start len)"
  by (induction m arbitrary: k) (auto simp: Release_match_def Alloc_new_block_def)

lemma PhysicalMemory_Release_fresh:
  "\<not> list_ex (Release_match start len) m \<Longrightarrow>
     PhysicalMemory_Release (m @ [Alloc_new_block start len]) start len =
       (Some (0, 0, Gpu_NoAccess), m)"
  by (simp add: PhysicalMemory_Release_def Release_loop_append_fresh RemoveAt_def)
     (simp add: Alloc_new_block_def)

lemma PhysicalMemory_Release_unmapped:
  assumes "PhysicalMemory_Release m start len = (Some r, m')" and "list_all block_no_mapping m"
  shows "r = (0, 0, Gpu_NoAccess)"
proof -
  from PhysicalMemory_Release_Some[OF assms(1)] obtain i where i: "i < length m"
    and r: "r = (map_vaddr (m ! i), map_size (m ! i), gpu_mode (m ! i))"
    by blast
  from assms(2) i have "block_no_mapping (m ! i)"
    by (simp add: list_all_length)
  with r show ?thesis by (simp add: block_no_mapping_def)
qed

lemma FlexibleMemory_Unmap_Some:
  assumes "FlexibleMemory_Unmap m vaddr sz = (Some g, m')"
  shows "\<exists>i < length m. Unmap_match vaddr sz (m ! i) \<and>
           (\<forall>j < i. \<not> Unmap_match vaddr sz (m ! j)) \<and>
           g = gpu_mode (m ! i) \<and> m' = RemoveAt i m"
proof -
  from assms obtain i b where ib: "Unmap_loop m 0 vaddr sz = Some (i, b)"
    and g: "g = gpu_mode b" and m': "m' = RemoveAt i m"
    by (auto simp: FlexibleMemory_Unmap_def split: option.splits)
  from Unmap_loop_Some[OF ib] g m' show ?thesis by auto
qed

lemma FlexibleMemory_Unmap_None:
  "\<not> list_ex (Unmap_match vaddr sz) m \<Longrightarrow> FlexibleMemory_Unmap m vaddr sz = (None, m)"
  using Unmap_loop_None[of m 0 vaddr sz]
  by (simp add: FlexibleMemory_Unmap_def list_ex_iff)

lemma PhysicalMemory_Unmap_None_ex:
  "\<not> list_ex (Unmap_match vaddr sz) m \<Longrightarrow> PhysicalMemory_Unmap m vaddr sz = (None, m)"
  by (rule PhysicalMemory_Unmap_None) (simp add: list_ex_iff)


text \<open>
  C4. \<^verbatim>\<open>PhysicalMemory::Release\<close>, \<^verbatim>\<open>PhysicalMemory::Unmap\<close> and
  \<^verbatim>\<open>FlexibleMemory::Unmap\<close> succeed only on the first entry that equals the request
  exactly: a successful \<^verbatim>\<open>Release\<close> removes that block and returns its mapping
  fields, a successful \<^verbatim>\<open>Unmap\<close> returns its GPU mode and clears (physical) or
  removes (flexible) it. A request that no entry equals exactly returns false and
  leaves the list as it was, whatever it overlaps. Releasing a block right after its
  allocation, or any block of a list in which no block has a mapping, returns zeros and
  no GPU access.
\<close>

theorem exact_match_release_unmap:
  "(PhysicalMemory_Release pm start len = (Some r, pm') \<longrightarrow>
      (\<exists>i < length pm. Release_match start len (pm ! i) \<and>
         (\<forall>j < i. \<not> Release_match start len (pm ! j)) \<and>
         r = (map_vaddr (pm ! i), map_size (pm ! i), gpu_mode (pm ! i)) \<and>
         pm' = RemoveAt i pm)) \<and>
   (\<not> list_ex (Release_match start len) pm \<longrightarrow>
      PhysicalMemory_Release pm start len = (None, pm) \<and>
      PhysicalMemory_Release (pm @ [Alloc_new_block start len]) start len =
        (Some (0, 0, Gpu_NoAccess), pm)) \<and>
   (PhysicalMemory_Release pm start len = (Some r, pm') \<and> list_all block_no_mapping pm \<longrightarrow>
      r = (0, 0, Gpu_NoAccess)) \<and>
   (PhysicalMemory_Unmap pm vaddr sz = (Some g, pm'') \<longrightarrow>
      (\<exists>i < length pm. Unmap_match vaddr sz (pm ! i) \<and>
         (\<forall>j < i. \<not> Unmap_match vaddr sz (pm ! j)) \<and>
         g = gpu_mode (pm ! i) \<and> pm'' = pm[i := Unmap_clear (pm ! i)])) \<and>
   (\<not> list_ex (Unmap_match vaddr sz) pm \<longrightarrow> PhysicalMemory_Unmap pm vaddr sz = (None, pm)) \<and>
   (FlexibleMemory_Unmap fm fvaddr fsz = (Some g', fm') \<longrightarrow>
      (\<exists>i < length fm. Unmap_match fvaddr fsz (fm ! i) \<and>
         (\<forall>j < i. \<not> Unmap_match fvaddr fsz (fm ! j)) \<and>
         g' = gpu_mode (fm ! i) \<and> fm' = RemoveAt i fm)) \<and>
   (\<not> list_ex (Unmap_match fvaddr fsz) fm \<longrightarrow> FlexibleMemory_Unmap fm fvaddr fsz = (None, fm))"
  using PhysicalMemory_Release_Some[of pm start len r pm']
    PhysicalMemory_Release_None[of start len pm]
    PhysicalMemory_Release_fresh[of start len pm]
    PhysicalMemory_Release_unmapped[of pm start len r pm']
    PhysicalMemory_Unmap_Some[of pm vaddr sz g pm'']
    PhysicalMemory_Unmap_None_ex[of vaddr sz pm]
    FlexibleMemory_Unmap_Some[of fm fvaddr fsz g' fm']
    FlexibleMemory_Unmap_None[of fvaddr fsz fm]
  by blast

theorem exact_match_release_unmap_witness:
  "PhysicalMemory_Release [ex_mapped_block] 0 0x10 = (Some (0x1000, 0x10, Gpu_ReadWrite), []) \<and>
   \<not> list_ex (Release_match 0 0x8) [ex_mapped_block] \<and>
   PhysicalMemory_Release [ex_mapped_block] 0 0x8 = (None, [ex_mapped_block]) \<and>
   PhysicalMemory_Release ([ex_mapped_block] @ [Alloc_new_block 0 0x8]) 0 0x8 =
     (Some (0, 0, Gpu_NoAccess), [ex_mapped_block]) \<and>
   list_all block_no_mapping [Alloc_new_block 0x20 0x8] \<and>
   PhysicalMemory_Release [Alloc_new_block 0x20 0x8] 0x20 0x8 = (Some (0, 0, Gpu_NoAccess), []) \<and>
   PhysicalMemory_Unmap [ex_mapped_block] 0x1000 0x10 =
     (Some Gpu_ReadWrite, [Unmap_clear ex_mapped_block]) \<and>
   \<not> list_ex (Unmap_match 0x1000 0x8) [ex_mapped_block] \<and>
   PhysicalMemory_Unmap [ex_mapped_block] 0x1000 0x8 = (None, [ex_mapped_block]) \<and>
   FlexibleMemory_Unmap [ex_flexible_block] 0x2000 0x20 = (Some Gpu_NoAccess, []) \<and>
   \<not> list_ex (Unmap_match 0x2008 0x8) [ex_flexible_block] \<and>
   FlexibleMemory_Unmap [ex_flexible_block] 0x2008 0x8 = (None, [ex_flexible_block])"
proof -
  have hyps:
    "PhysicalMemory_Release [ex_mapped_block] 0 0x10 = (Some (0x1000, 0x10, Gpu_ReadWrite), [])"
    "\<not> list_ex (Release_match 0 0x8) [ex_mapped_block]"
    "PhysicalMemory_Unmap [ex_mapped_block] 0x1000 0x10 =
       (Some Gpu_ReadWrite, [Unmap_clear ex_mapped_block])"
    "\<not> list_ex (Unmap_match 0x1000 0x8) [ex_mapped_block]"
    "FlexibleMemory_Unmap [ex_flexible_block] 0x2000 0x20 = (Some Gpu_NoAccess, [])"
    "\<not> list_ex (Unmap_match 0x2008 0x8) [ex_flexible_block]"
    "list_all block_no_mapping [Alloc_new_block 0x20 0x8]"
    "PhysicalMemory_Release [Alloc_new_block 0x20 0x8] 0x20 0x8 = (Some (0, 0, Gpu_NoAccess), [])"
    by (simp_all add: PhysicalMemory_Release_def FlexibleMemory_Unmap_def ex_mapped_block_def
        ex_flexible_block_def Release_match_def Unmap_match_def Unmap_clear_def
        block_no_mapping_def Alloc_new_block_def)
  from hyps
    exact_match_release_unmap[of "[ex_mapped_block]" 0 "0x10" "(0x1000, 0x10, Gpu_ReadWrite)" "[]"
      "0x1000" "0x10" Gpu_ReadWrite "[Unmap_clear ex_mapped_block]"
      "[ex_flexible_block]" "0x2000" "0x20" Gpu_NoAccess "[]"]
    exact_match_release_unmap[of "[ex_mapped_block]" 0 "0x8" "(0, 0, Gpu_NoAccess)" "[]"
      "0x1000" "0x8" Gpu_NoAccess "[]" "[ex_flexible_block]" "0x2008" "0x8" Gpu_NoAccess "[]"]
    exact_match_release_unmap[of "[Alloc_new_block 0x20 0x8]" "0x20" "0x8" "(0, 0, Gpu_NoAccess)"
      "[]" 0 0 Gpu_NoAccess "[]" "[]" 0 0 Gpu_NoAccess "[]"]
  show ?thesis by blast
qed

subsection \<open>Protection decode\<close>

lemma MapDirectMemory_switch_table: "MapDirectMemory_switch pr = map_of spec_protection_table pr"
  by (simp add: MapDirectMemory_switch_def spec_protection_table_def)

lemma MapNamedFlexibleMemory_switch_table:
  "map_option (\<lambda>md. (md, Gpu_NoAccess)) (MapNamedFlexibleMemory_switch pr) = map_of spec_flexible_table pr"
  by (simp add: MapNamedFlexibleMemory_switch_def spec_flexible_table_def spec_protection_table_def)

text \<open>
  C3. With a non-null address pointer and flags 0, \<^verbatim>\<open>KernelMapDirectMemory\<close> decodes
  the protection code exactly as the table of section 4.1: it runs on with the table's
  access mode and GPU mode for a code the table lists, and terminates the emulator
  (rather than returning a status) for every other code.
  \<^verbatim>\<open>KernelMapNamedFlexibleMemory\<close> does the same with the table less its two
  direct-memory-only rows, so it terminates on 0x32 and 0x33 too, and the GPU mode it
  runs on with is always \<open>NoAccess\<close>. Running on never terminates the emulator.
\<close>

theorem protection_decode_table:
  "KernelMapDirectMemory st (Some in_addr) len pr 0 direct_memory_start alignment out_addr =
     (case map_of spec_protection_table pr of
        None \<Rightarrow> EXIT
      | Some (md, gm) \<Rightarrow>
          MapDirectMemory_tail st in_addr len pr md gm direct_memory_start alignment out_addr) \<and>
   KernelMapNamedFlexibleMemory st (Some in_addr) len pr 0 name out_addr =
     (case map_of spec_flexible_table pr of
        None \<Rightarrow> EXIT
      | Some (md, gm) \<Rightarrow> MapNamedFlexibleMemory_tail st in_addr len pr md gm out_addr) \<and>
   map_of spec_flexible_table 0x32 = None \<and> map_of spec_flexible_table 0x33 = None \<and>
   map_option snd (map_of spec_flexible_table pr) \<in> {None, Some Gpu_NoAccess} \<and>
   MapDirectMemory_tail st in_addr len pr md gm direct_memory_start alignment out_addr \<noteq> EXIT \<and>
   MapNamedFlexibleMemory_tail st in_addr len pr md gm out_addr \<noteq> EXIT"
proof (intro conjI)
  show "KernelMapDirectMemory st (Some in_addr) len pr 0 direct_memory_start alignment out_addr =
     (case map_of spec_protection_table pr of
        None \<Rightarrow> EXIT
      | Some (md, gm) \<Rightarrow>
          MapDirectMemory_tail st in_addr len pr md gm direct_memory_start alignment out_addr)"
    by (simp add: KernelMapDirectMemory_def MapDirectMemory_switch_table)
  have "KernelMapNamedFlexibleMemory st (Some in_addr) len pr 0 name out_addr =
     (case map_option (\<lambda>md. (md, Gpu_NoAccess)) (MapNamedFlexibleMemory_switch pr) of
        None \<Rightarrow> EXIT
      | Some (md, gm) \<Rightarrow> MapNamedFlexibleMemory_tail st in_addr len pr md gm out_addr)"
    by (simp add: KernelMapNamedFlexibleMemory_def split: option.splits)
  then show "KernelMapNamedFlexibleMemory st (Some in_addr) len pr 0 name out_addr =
     (case map_of spec_flexible_table pr of
        None \<Rightarrow> EXIT
      | Some (md, gm) \<Rightarrow> MapNamedFlexibleMemory_tail st in_addr len pr md gm out_addr)"
    by (simp only: MapNamedFlexibleMemory_switch_table)
  show "map_option snd (map_of spec_flexible_table pr) \<in> {None, Some Gpu_NoAccess}"
    by (simp add: spec_flexible_table_def spec_protection_table_def)
  show "MapDirectMemory_tail st in_addr len pr md gm direct_memory_start alignment out_addr \<noteq> EXIT"
    by (simp add: MapDirectMemory_tail_def Let_def split: prod.splits bool.splits)
  show "MapNamedFlexibleMemory_tail st in_addr len pr md gm out_addr \<noteq> EXIT"
    by (simp add: MapNamedFlexibleMemory_tail_def FlexibleMemory_Map_def Let_def)
qed (simp_all add: spec_flexible_table_def spec_protection_table_def)

theorem protection_decode_table_witness:
  "KernelMapDirectMemory empty_state (Some 0) 0x4000 0x33 0 0 0 0x7000 =
     MapDirectMemory_tail empty_state 0 0x4000 0x33 Mode_ReadWrite Gpu_ReadWrite 0 0 0x7000 \<and>
   KernelMapDirectMemory empty_state (Some 0) 0x4000 5 0 0 0 0x7000 =
     MapDirectMemory_tail empty_state 0 0x4000 5 Mode_ExecuteRead Gpu_NoAccess 0 0 0x7000 \<and>
   KernelMapDirectMemory empty_state (Some 0) 0x4000 8 0 0 0 0x7000 = EXIT \<and>
   KernelMapNamedFlexibleMemory empty_state (Some 0) 0x4000 0x33 0 ''heap'' 0x7000 = EXIT \<and>
   KernelMapNamedFlexibleMemory empty_state (Some 0) 0x4000 6 0 ''heap'' 0x7000 =
     MapNamedFlexibleMemory_tail empty_state 0 0x4000 6 Mode_ExecuteReadWrite Gpu_NoAccess 0x7000 \<and>
   KernelMapNamedFlexibleMemory empty_state (Some 0) 0x4000 (-1) 0 ''heap'' 0x7000 = EXIT"
  using protection_decode_table[of empty_state 0 "0x4000" "0x33" 0 0 "0x7000" "''heap''"]
    protection_decode_table[of empty_state 0 "0x4000" 5 0 0 "0x7000" "''heap''"]
    protection_decode_table[of empty_state 0 "0x4000" 8 0 0 "0x7000" "''heap''"]
    protection_decode_table[of empty_state 0 "0x4000" 6 0 0 "0x7000" "''heap''"]
    protection_decode_table[of empty_state 0 "0x4000" "-1" 0 0 "0x7000" "''heap''"]
  by (simp add: spec_flexible_table_def spec_protection_table_def)

subsection \<open>KernelMunmap\<close>

lemma PhysicalMemory_Unmap_fail_same:
  "PhysicalMemory_Unmap m vaddr sz = (None, m') \<Longrightarrow> m' = m"
  by (induction m arbitrary: m') (auto split: if_splits prod.splits)

text \<open>
  What \<^verbatim>\<open>KernelMunmap\<close> does on every input. It returns the invalid-argument status and
  leaves the state as it was when the length is 0 (the test of the address compares an
  unsigned value with zero and never holds). Otherwise it
  tries \<^verbatim>\<open>PhysicalMemory::Unmap\<close> first and \<^verbatim>\<open>FlexibleMemory::Unmap\<close> only when that
  failed; when both fail it terminates the emulator. After a successful unmap it frees
  the host range and then, when the removed mapping's GPU mode was not \<open>NoAccess\<close>,
  waits for the GPU and frees the GPU range, in this order; the manager that was not
  unmapped from keeps its list.
\<close>

lemma KernelMunmap_cases:
  "(vaddr < 0 \<or> len = 0 \<longrightarrow> KernelMunmap st vaddr len = Return (KERNEL_ERROR_EINVAL, st)) \<and>
   (len \<noteq> 0 \<and> PhysicalMemory_Unmap (g_physical_memory st) vaddr len = (Some gm, pm) \<longrightarrow>
      KernelMunmap st vaddr len =
        Return (OK, st\<lparr>g_physical_memory := pm,
                       calls := calls st @ Call_VirtualMemory_Free vaddr #
                         (if gm = Gpu_NoAccess then []
                          else [Call_GraphicsRunWait, Call_GpuMemoryFree vaddr len])\<rparr>)) \<and>
   (len \<noteq> 0 \<and> fst (PhysicalMemory_Unmap (g_physical_memory st) vaddr len) = None \<and>
    FlexibleMemory_Unmap (g_flexible_memory st) vaddr len = (Some gm, fm) \<longrightarrow>
      KernelMunmap st vaddr len =
        Return (OK, st\<lparr>g_flexible_memory := fm,
                       calls := calls st @ Call_VirtualMemory_Free vaddr #
                         (if gm = Gpu_NoAccess then []
                          else [Call_GraphicsRunWait, Call_GpuMemoryFree vaddr len])\<rparr>)) \<and>
   (len \<noteq> 0 \<and> fst (PhysicalMemory_Unmap (g_physical_memory st) vaddr len) = None \<and>
    fst (FlexibleMemory_Unmap (g_flexible_memory st) vaddr len) = None \<longrightarrow>
      KernelMunmap st vaddr len = EXIT)"
proof (intro conjI impI)
  assume "vaddr < 0 \<or> len = 0"
  then show "KernelMunmap st vaddr len = Return (KERNEL_ERROR_EINVAL, st)"
    by (simp add: KernelMunmap_def)
next
  assume "len \<noteq> 0 \<and> PhysicalMemory_Unmap (g_physical_memory st) vaddr len = (Some gm, pm)"
  then show "KernelMunmap st vaddr len =
        Return (OK, st\<lparr>g_physical_memory := pm,
                       calls := calls st @ Call_VirtualMemory_Free vaddr #
                         (if gm = Gpu_NoAccess then []
                          else [Call_GraphicsRunWait, Call_GpuMemoryFree vaddr len])\<rparr>)"
    by (simp add: KernelMunmap_def Munmap_teardown_def)
next
  assume a: "len \<noteq> 0 \<and> fst (PhysicalMemory_Unmap (g_physical_memory st) vaddr len) = None \<and>
    FlexibleMemory_Unmap (g_flexible_memory st) vaddr len = (Some gm, fm)"
  then obtain pm where pm: "PhysicalMemory_Unmap (g_physical_memory st) vaddr len = (None, pm)"
    by (cases "PhysicalMemory_Unmap (g_physical_memory st) vaddr len") auto
  from PhysicalMemory_Unmap_fail_same[OF pm] have "pm = g_physical_memory st" .
  with a pm show "KernelMunmap st vaddr len =
        Return (OK, st\<lparr>g_flexible_memory := fm,
                       calls := calls st @ Call_VirtualMemory_Free vaddr #
                         (if gm = Gpu_NoAccess then []
                          else [Call_GraphicsRunWait, Call_GpuMemoryFree vaddr len])\<rparr>)"
    by (simp add: KernelMunmap_def Munmap_teardown_def)
next
  assume a: "len \<noteq> 0 \<and> fst (PhysicalMemory_Unmap (g_physical_memory st) vaddr len) = None \<and>
    fst (FlexibleMemory_Unmap (g_flexible_memory st) vaddr len) = None"
  then show "KernelMunmap st vaddr len = EXIT"
    by (cases "PhysicalMemory_Unmap (g_physical_memory st) vaddr len";
        cases "FlexibleMemory_Unmap (g_flexible_memory st) vaddr len")
       (auto simp: KernelMunmap_def)
qed

lemma KernelMunmap_cases_evaluated:
  "KernelMunmap ex_state 0x1000 0 = Return (KERNEL_ERROR_EINVAL, ex_state) \<and>
   PhysicalMemory_Unmap (g_physical_memory ex_state) 0x1000 0x10 =
     (Some Gpu_ReadWrite, [Unmap_clear ex_mapped_block]) \<and>
   KernelMunmap ex_state 0x1000 0x10 =
     Return (OK, ex_state\<lparr>g_physical_memory := [Unmap_clear ex_mapped_block],
                          calls := [Call_VirtualMemory_Free 0x1000, Call_GraphicsRunWait,
                                    Call_GpuMemoryFree 0x1000 0x10]\<rparr>) \<and>
   fst (PhysicalMemory_Unmap (g_physical_memory ex_state) 0x2000 0x20) = None \<and>
   FlexibleMemory_Unmap (g_flexible_memory ex_state) 0x2000 0x20 = (Some Gpu_NoAccess, []) \<and>
   KernelMunmap ex_state 0x2000 0x20 =
     Return (OK, ex_state\<lparr>g_flexible_memory := [], calls := [Call_VirtualMemory_Free 0x2000]\<rparr>) \<and>
   fst (PhysicalMemory_Unmap (g_physical_memory ex_state) 0x2000 0x10) = None \<and>
   fst (FlexibleMemory_Unmap (g_flexible_memory ex_state) 0x2000 0x10) = None \<and>
   KernelMunmap ex_state 0x2000 0x10 = EXIT"
proof -
  have hyps:
    "PhysicalMemory_Unmap (g_physical_memory ex_state) 0x1000 0x10 =
       (Some Gpu_ReadWrite, [Unmap_clear ex_mapped_block])"
    "fst (PhysicalMemory_Unmap (g_physical_memory ex_state) 0x2000 0x20) = None"
    "FlexibleMemory_Unmap (g_flexible_memory ex_state) 0x2000 0x20 = (Some Gpu_NoAccess, [])"
    "fst (PhysicalMemory_Unmap (g_physical_memory ex_state) 0x2000 0x10) = None"
    "fst (FlexibleMemory_Unmap (g_flexible_memory ex_state) 0x2000 0x10) = None"
    by (simp_all add: ex_state_def ex_mapped_block_def ex_flexible_block_def Unmap_clear_def
        FlexibleMemory_Unmap_def)
  have st: "calls ex_state = []"
    by (simp add: ex_state_def)
  from hyps st
    KernelMunmap_cases[of "0x1000" 0 ex_state Gpu_NoAccess "[]" "[]"]
    KernelMunmap_cases[of "0x1000" "0x10" ex_state Gpu_ReadWrite "[Unmap_clear ex_mapped_block]" "[]"]
    KernelMunmap_cases[of "0x2000" "0x20" ex_state Gpu_NoAccess "[]" "[]"]
    KernelMunmap_cases[of "0x2000" "0x10" ex_state Gpu_NoAccess "[]" "[]"]
  show ?thesis by simp
qed

text \<open>
  C8. The claim has \<^verbatim>\<open>KernelMunmap\<close> return the invalid-argument status for an invalid
  address. The code does not: its test \<^verbatim>\<open>vaddr < 0\<close> is on a \<^verbatim>\<open>uint64_t\<close> and never
  holds, while \<^verbatim>\<open>KernelAllocateDirectMemory\<close>, which takes the address as
  \<^verbatim>\<open>int64_t\<close>, rejects the same bits. On the address \<open>2^63\<close>, negative as a signed value,
  \<^verbatim>\<open>KernelMunmap\<close> terminates the emulator when no mapping is tracked there, and unmaps
  and returns success when one is.
\<close>

theorem KernelMunmap_negative_address:
  "sint (0x8000000000000000 :: u64) < 0 \<and>
   KernelAllocateDirectMemory ex_state 0x8000000000000000 0x100 0x1000 0 0 valid_ptr =
     (KERNEL_ERROR_EINVAL, None, ex_state) \<and>
   KernelMunmap ex_state 0x8000000000000000 0x1000 = EXIT \<and>
   KernelMunmap (ex_state\<lparr>g_flexible_memory := [ex_high_mapping]\<rparr>) 0x8000000000000000 0x1000 =
     Return (OK, ex_state\<lparr>g_flexible_memory := [],
                          calls := [Call_VirtualMemory_Free 0x8000000000000000]\<rparr>)"
  by (simp add: KernelMunmap_def KernelAllocateDirectMemory_def Munmap_teardown_def
      FlexibleMemory_Unmap_def ex_state_def ex_mapped_block_def ex_flexible_block_def
      ex_high_mapping_def)

subsection \<open>KernelAllocateDirectMemory\<close>

text \<open>
  C9. \<^verbatim>\<open>KernelAllocateDirectMemory\<close> returns the invalid-argument status, writes
  nothing and leaves the state as it was when \<open>search_start\<close> is negative,
  \<open>search_end\<close> is not above \<open>search_start\<close>, the length is 0 or the output pointer is
  null. With valid arguments it returns the try-again status (a different status) and
  leaves the state as it was when \<^verbatim>\<open>PhysicalMemory::Alloc\<close> fails, and otherwise
  returns success, writes the allocated address through the output pointer and keeps
  the list \<^verbatim>\<open>Alloc\<close> produced.
\<close>

theorem KernelAllocateDirectMemory_cases:
  "(sint search_start < 0 \<or> sint search_end \<le> sint search_start \<or> len = 0 \<or>
      phys_addr_out = nullptr \<longrightarrow>
      KernelAllocateDirectMemory st search_start search_end len alignment memory_type phys_addr_out =
        (KERNEL_ERROR_EINVAL, None, st)) \<and>
   (\<not> (sint search_start < 0 \<or> sint search_end \<le> sint search_start \<or> len = 0 \<or>
        phys_addr_out = nullptr) \<and>
    fst (PhysicalMemory_Alloc (g_physical_memory st) search_start search_end len alignment
           valid_ptr) = None \<longrightarrow>
      KernelAllocateDirectMemory st search_start search_end len alignment memory_type phys_addr_out =
        (KERNEL_ERROR_EAGAIN, None, st)) \<and>
   (\<not> (sint search_start < 0 \<or> sint search_end \<le> sint search_start \<or> len = 0 \<or>
        phys_addr_out = nullptr) \<and>
    PhysicalMemory_Alloc (g_physical_memory st) search_start search_end len alignment valid_ptr =
      (Some a, pm) \<longrightarrow>
      KernelAllocateDirectMemory st search_start search_end len alignment memory_type phys_addr_out =
        (OK, Some a, st\<lparr>g_physical_memory := pm\<rparr>)) \<and>
   KERNEL_ERROR_EAGAIN \<noteq> KERNEL_ERROR_EINVAL"
  by (auto simp: KernelAllocateDirectMemory_def PhysicalMemory_Alloc_def Let_def)

theorem KernelAllocateDirectMemory_cases_witness:
  "sint (- 1 :: u64) < 0 \<and>
   KernelAllocateDirectMemory ex_state (- 1) 0x100 0x10 0 0 valid_ptr =
     (KERNEL_ERROR_EINVAL, None, ex_state) \<and>
   KernelAllocateDirectMemory ex_state 0 0x100 0 0 0 valid_ptr =
     (KERNEL_ERROR_EINVAL, None, ex_state) \<and>
   KernelAllocateDirectMemory ex_state 0 0x100 0x10 0 0 nullptr =
     (KERNEL_ERROR_EINVAL, None, ex_state) \<and>
   \<not> (sint (0 :: u64) < 0 \<or> sint (0x18 :: u64) \<le> sint (0 :: u64) \<or> (0x10 :: u64) = 0 \<or>
      valid_ptr = nullptr) \<and>
   fst (PhysicalMemory_Alloc (g_physical_memory ex_state) 0 0x18 0x10 0 valid_ptr) = None \<and>
   KernelAllocateDirectMemory ex_state 0 0x18 0x10 0 0 valid_ptr =
     (KERNEL_ERROR_EAGAIN, None, ex_state) \<and>
   PhysicalMemory_Alloc (g_physical_memory ex_state) 0 0x100 0x10 0 valid_ptr =
     (Some 0x10, [ex_mapped_block, Alloc_new_block 0x10 0x10]) \<and>
   KernelAllocateDirectMemory ex_state 0 0x100 0x10 0 0 valid_ptr =
     (OK, Some 0x10, ex_state\<lparr>g_physical_memory := [ex_mapped_block, Alloc_new_block 0x10 0x10]\<rparr>)"
proof -
  have hyps:
    "sint (- 1 :: u64) < 0"
    "\<not> (sint (0 :: u64) < 0 \<or> sint (0x18 :: u64) \<le> sint (0 :: u64) \<or> (0x10 :: u64) = 0 \<or>
        valid_ptr = nullptr)"
    "\<not> (sint (0 :: u64) < 0 \<or> sint (0x100 :: u64) \<le> sint (0 :: u64) \<or> (0x10 :: u64) = 0 \<or>
        valid_ptr = nullptr)"
    "fst (PhysicalMemory_Alloc (g_physical_memory ex_state) 0 0x18 0x10 0 valid_ptr) = None"
    "PhysicalMemory_Alloc (g_physical_memory ex_state) 0 0x100 0x10 0 valid_ptr =
       (Some 0x10, [ex_mapped_block, Alloc_new_block 0x10 0x10])"
    by (simp_all add: PhysicalMemory_Alloc_def get_aligned_pos_def ex_state_def ex_mapped_block_def)
  from hyps
    KernelAllocateDirectMemory_cases[of "- 1" "0x100" "0x10" valid_ptr ex_state 0 0 0 "[]"]
    KernelAllocateDirectMemory_cases[of 0 "0x100" 0 valid_ptr ex_state 0 0 0 "[]"]
    KernelAllocateDirectMemory_cases[of 0 "0x100" "0x10" nullptr ex_state 0 0 0 "[]"]
    KernelAllocateDirectMemory_cases[of 0 "0x18" "0x10" valid_ptr ex_state 0 0 0 "[]"]
    KernelAllocateDirectMemory_cases[of 0 "0x100" "0x10" valid_ptr ex_state 0 0 "0x10"
      "[ex_mapped_block, Alloc_new_block 0x10 0x10]"]
  show ?thesis by simp
qed

subsection \<open>A reservation that returns address 0\<close>

lemma FlexibleMemory_Map_True: "fst (FlexibleMemory_Map m vaddr len pr md gm) = True"
  by (simp add: FlexibleMemory_Map_def)

lemma find_append_first:
  "find P (xs @ ys) = (case find P xs of None \<Rightarrow> find P ys | Some x \<Rightarrow> Some x)"
  by (induction xs) auto

lemma FlexibleMemory_Find_append:
  "FlexibleMemory_Find (m @ [b]) a =
     (case FlexibleMemory_Find m a of
        Some r \<Rightarrow> Some r
      | None \<Rightarrow> if Find_contains a b then Some (Find_outputs b) else None)"
  by (simp add: FlexibleMemory_Find_def find_append_first split: option.splits)
lemma Find_zero_address_mapping:
  "a < len \<Longrightarrow>
     FlexibleMemory_Find (m @ [zero_address_mapping len pr md]) a =
       (case FlexibleMemory_Find m a of
          Some r \<Rightarrow> Some r
        | None \<Rightarrow> Some (0, len, pr, md, Gpu_NoAccess))"
  by (simp add: FlexibleMemory_Find_append zero_address_mapping_def Find_contains_def
      Find_outputs_def split: option.splits)

lemma Query_after_failed_reservation:
  assumes "a < len" "a \<noteq> 0"
  shows "KernelQueryMemoryProtection (after_failed_reservation st in_addr len pr md) a
            start_out end_out prot_out =
           Return (OK,
             case PhysicalMemory_Find (g_physical_memory st) a of
               Some (base, l, p, md', gm') \<Rightarrow> Query_outputs start_out end_out prot_out base l p
             | None \<Rightarrow>
                 (case FlexibleMemory_Find (g_flexible_memory st) a of
                    Some (base, l, p, md', gm') \<Rightarrow>
                      Query_outputs start_out end_out prot_out base l p
                  | None \<Rightarrow> Query_outputs start_out end_out prot_out 0 len pr))"
proof -
  have pm: "g_physical_memory (after_failed_reservation st in_addr len pr md) = g_physical_memory st"
    by (simp add: after_failed_reservation_def)
  have fm: "FlexibleMemory_Find (g_flexible_memory (after_failed_reservation st in_addr len pr md)) a =
      (case FlexibleMemory_Find (g_flexible_memory st) a of
         Some r \<Rightarrow> Some r
       | None \<Rightarrow> Some (0, len, pr, md, Gpu_NoAccess))"
    using Find_zero_address_mapping[OF assms(1), of "g_flexible_memory st" pr md]
    by (simp add: after_failed_reservation_def)
  from assms(2) show ?thesis
    by (simp add: KernelQueryMemoryProtection_def pm fm split: option.splits)
qed

text \<open>
  C10, as amended. When the reservation of \<^verbatim>\<open>KernelMapNamedFlexibleMemory\<close> returns
  address 0, \<^verbatim>\<open>FlexibleMemory::Map\<close> (which always returns true) has appended a mapping
  at address 0 with the requested length before the out-of-memory status is returned.
  Afterwards, on every address below the requested length, \<^verbatim>\<open>FlexibleMemory::Find\<close>
  succeeds, with the attributes of this mapping unless an earlier flexible entry
  contains the address; and on every such address other than the null address
  \<^verbatim>\<open>KernelQueryMemoryProtection\<close> returns success, with the outputs of this mapping
  (start 0, end \<open>len - 1\<close>, the requested protection code) unless a physical block or an
  earlier flexible entry contains the address, whose outputs it then returns.
\<close>

theorem failed_reservation_registers_mapping:
  "MapNamedFlexibleMemory_switch pr = Some md \<longrightarrow>
     fst (FlexibleMemory_Map (g_flexible_memory st) 0 len pr md Gpu_NoAccess) = True \<and>
     KernelMapNamedFlexibleMemory st (Some in_addr) len pr 0 name 0 =
       Return (KERNEL_ERROR_ENOMEM, 0, after_failed_reservation st in_addr len pr md) \<and>
     (\<forall>a. a < len \<longrightarrow>
        FlexibleMemory_Find (g_flexible_memory (after_failed_reservation st in_addr len pr md)) a =
          (case FlexibleMemory_Find (g_flexible_memory st) a of
             Some r \<Rightarrow> Some r
           | None \<Rightarrow> Some (0, len, pr, md, Gpu_NoAccess))) \<and>
     (\<forall>a. a < len \<and> a \<noteq> 0 \<longrightarrow>
        KernelQueryMemoryProtection (after_failed_reservation st in_addr len pr md) a
            start_out end_out prot_out =
          Return (OK,
            case PhysicalMemory_Find (g_physical_memory st) a of
              Some (base, l, p, md', gm') \<Rightarrow> Query_outputs start_out end_out prot_out base l p
            | None \<Rightarrow>
                (case FlexibleMemory_Find (g_flexible_memory st) a of
                   Some (base, l, p, md', gm') \<Rightarrow>
                     Query_outputs start_out end_out prot_out base l p
                 | None \<Rightarrow> Query_outputs start_out end_out prot_out 0 len pr))) \<and>
     (\<forall>a. a < len \<and> a \<noteq> 0 \<and> PhysicalMemory_Find (g_physical_memory st) a = None \<and>
          FlexibleMemory_Find (g_flexible_memory st) a = None \<longrightarrow>
        KernelQueryMemoryProtection (after_failed_reservation st in_addr len pr md) a
            valid_ptr valid_ptr valid_ptr =
          Return (OK, Some 0, Some (len - 1), Some pr))"
proof (intro impI conjI allI)
  show "fst (FlexibleMemory_Map (g_flexible_memory st) 0 len pr md Gpu_NoAccess) = True"
    by (rule FlexibleMemory_Map_True)
next
  assume "MapNamedFlexibleMemory_switch pr = Some md"
  then show "KernelMapNamedFlexibleMemory st (Some in_addr) len pr 0 name 0 =
       Return (KERNEL_ERROR_ENOMEM, 0, after_failed_reservation st in_addr len pr md)"
    by (simp add: KernelMapNamedFlexibleMemory_def MapNamedFlexibleMemory_tail_def
        FlexibleMemory_Map_def after_failed_reservation_def zero_address_mapping_def)
next
  fix a assume "a < len"
  then show "FlexibleMemory_Find (g_flexible_memory (after_failed_reservation st in_addr len pr md)) a =
          (case FlexibleMemory_Find (g_flexible_memory st) a of
             Some r \<Rightarrow> Some r
           | None \<Rightarrow> Some (0, len, pr, md, Gpu_NoAccess))"
    using Find_zero_address_mapping[of a len "g_flexible_memory st" pr md]
    by (simp add: after_failed_reservation_def)
next
  fix a assume "a < len \<and> a \<noteq> 0"
  then show "KernelQueryMemoryProtection (after_failed_reservation st in_addr len pr md) a
            start_out end_out prot_out =
          Return (OK,
            case PhysicalMemory_Find (g_physical_memory st) a of
              Some (base, l, p, md', gm') \<Rightarrow> Query_outputs start_out end_out prot_out base l p
            | None \<Rightarrow>
                (case FlexibleMemory_Find (g_flexible_memory st) a of
                   Some (base, l, p, md', gm') \<Rightarrow>
                     Query_outputs start_out end_out prot_out base l p
                 | None \<Rightarrow> Query_outputs start_out end_out prot_out 0 len pr))"
    using Query_after_failed_reservation[of a len st in_addr pr md start_out end_out prot_out]
    by simp
next
  fix a assume "a < len \<and> a \<noteq> 0 \<and> PhysicalMemory_Find (g_physical_memory st) a = None \<and>
          FlexibleMemory_Find (g_flexible_memory st) a = None"
  then show "KernelQueryMemoryProtection (after_failed_reservation st in_addr len pr md) a
            valid_ptr valid_ptr valid_ptr =
          Return (OK, Some 0, Some (len - 1), Some pr)"
    using Query_after_failed_reservation[of a len st in_addr pr md valid_ptr valid_ptr valid_ptr]
    by (simp add: Query_outputs_def)
qed

theorem failed_reservation_registers_mapping_witness:
  "MapNamedFlexibleMemory_switch 3 = Some Mode_ReadWrite \<and>
   KernelMapNamedFlexibleMemory empty_state (Some 0) 0x1000 3 0 ''heap'' 0 =
     Return (KERNEL_ERROR_ENOMEM, 0, after_failed_reservation empty_state 0 0x1000 3 Mode_ReadWrite) \<and>
   (0x10 :: u64) < 0x1000 \<and> (0x10 :: u64) \<noteq> 0 \<and>
   PhysicalMemory_Find (g_physical_memory empty_state) 0x10 = None \<and>
   FlexibleMemory_Find (g_flexible_memory empty_state) 0x10 = None \<and>
   FlexibleMemory_Find
     (g_flexible_memory (after_failed_reservation empty_state 0 0x1000 3 Mode_ReadWrite)) 0x10 =
     Some (0, 0x1000, 3, Mode_ReadWrite, Gpu_NoAccess) \<and>
   KernelQueryMemoryProtection (after_failed_reservation empty_state 0 0x1000 3 Mode_ReadWrite) 0x10
     valid_ptr valid_ptr valid_ptr = Return (OK, Some 0, Some 0xFFF, Some 3)"
proof -
  have sw: "MapNamedFlexibleMemory_switch 3 = Some Mode_ReadWrite"
    by (simp add: MapNamedFlexibleMemory_switch_def)
  have none: "FlexibleMemory_Find (g_flexible_memory empty_state) 0x10 = None"
    "PhysicalMemory_Find (g_physical_memory empty_state) 0x10 = None"
    by (simp_all add: FlexibleMemory_Find_def PhysicalMemory_Find_def empty_state_def)
  have q: "KernelQueryMemoryProtection (after_failed_reservation empty_state 0 0x1000 3 Mode_ReadWrite)
      0x10 valid_ptr valid_ptr valid_ptr = Return (OK, Some 0, Some 0xFFF, Some 3)"
    by (simp add: after_failed_reservation_def zero_address_mapping_def empty_state_def
        KernelQueryMemoryProtection_def PhysicalMemory_Find_def FlexibleMemory_Find_def
        Find_contains_def Find_outputs_def Query_outputs_def)
  from sw none q
    failed_reservation_registers_mapping[where pr = 3 and md = Mode_ReadWrite
      and st = empty_state and len = "0x1000" and in_addr = 0 and name = "''heap''"
      and start_out = valid_ptr and end_out = valid_ptr and prot_out = valid_ptr]
  show ?thesis by simp
qed

text \<open>
  The claim as stated fails at the null address, which lies below every non-zero
  length: \<^verbatim>\<open>KernelQueryMemoryProtection\<close> terminates the emulator on it.
\<close>

theorem query_null_address_counterexample:
  "KernelMapNamedFlexibleMemory empty_state (Some 0) 0x1000 3 0 ''heap'' 0 =
     Return (KERNEL_ERROR_ENOMEM, 0, after_failed_reservation empty_state 0 0x1000 3 Mode_ReadWrite) \<and>
   (0 :: u64) < 0x1000 \<and>
   KernelQueryMemoryProtection (after_failed_reservation empty_state 0 0x1000 3 Mode_ReadWrite) 0
     valid_ptr valid_ptr valid_ptr = EXIT"
  by (simp add: KernelMapNamedFlexibleMemory_def MapNamedFlexibleMemory_tail_def
      FlexibleMemory_Map_def after_failed_reservation_def zero_address_mapping_def empty_state_def
      MapNamedFlexibleMemory_switch_def KernelQueryMemoryProtection_def)

subsection \<open>Find\<close>

lemma find_skip_prefix:
  "\<not> list_ex P xs \<Longrightarrow> find P (xs @ b # ys) = (if P b then Some b else find P ys)"
  by (induction xs) auto

lemma find_None_list_ex: "(find P xs = None) = (\<not> list_ex P xs)"
  by (auto simp: find_None_iff list_ex_iff)

lemma unat_range_sum:
  fixes v len :: u64
  assumes "unat v + unat len < 2 ^ 64"
  shows "unat (v + len) = unat v + unat len"
  using assms unat_add_lem[of v len] by simp

lemma range_contains_first:
  fixes v len :: u64
  assumes "0 < len" "unat v + unat len < 2 ^ 64"
  shows "v \<le> v \<and> v < v + len"
proof -
  from assms(1) have "0 < unat len" by (simp add: word_less_nat_alt)
  with unat_range_sum[OF assms(2)] show ?thesis by (simp add: word_less_nat_alt)
qed

lemma range_contains_last:
  fixes v len :: u64
  assumes "0 < len" "unat v + unat len < 2 ^ 64"
  shows "v \<le> v + len - 1 \<and> v + len - 1 < v + len"
proof -
  from assms(1) have pos: "0 < unat len" by (simp add: word_less_nat_alt)
  have sum: "unat (v + len) = unat v + unat len" by (rule unat_range_sum[OF assms(2)])
  with pos have "v + len \<noteq> 0" by (metis add_is_0 less_numeral_extra(3) unat_0)
  then have "unat (v + len - 1) = unat v + unat len - 1"
    using sum by (simp add: unat_minus_one)
  with pos sum show ?thesis by (simp add: word_less_nat_alt word_le_nat_alt)
qed

lemma sole_range_find:
  assumes "sole_range m i v len"
  shows "find (Find_contains v) m = Some (m ! i)"
    and "find (Find_contains (v + len - 1)) m = Some (m ! i)"
    and "find (Find_contains (v + len)) m = None"
proof -
  from assms have i: "i < length m" and mv: "map_vaddr (m ! i) = v" and ms: "map_size (m ! i) = len"
    and len: "0 < len" and nw: "unat v + unat len < 2 ^ 64"
    and others: "\<not> list_ex (\<lambda>b. Find_contains v b \<or> Find_contains (v + len - 1) b \<or>
                    Find_contains (v + len) b) (RemoveAt i m)"
    by (simp_all add: sole_range_def)
  have split: "m = take i m @ m ! i # drop (Suc i) m"
    using i by (rule id_take_nth_drop)
  have pre: "\<not> list_ex (Find_contains a) (take i m)" and post: "\<not> list_ex (Find_contains a) (drop (Suc i) m)"
    if "a = v \<or> a = v + len - 1 \<or> a = v + len" for a
    using others that by (auto simp: RemoveAt_def list_ex_iff)
  have c1: "Find_contains v (m ! i)"
    using range_contains_first[OF len nw] by (simp add: Find_contains_def mv ms)
  have c2: "Find_contains (v + len - 1) (m ! i)"
    using range_contains_last[OF len nw] by (simp add: Find_contains_def mv ms)
  have c3: "\<not> Find_contains (v + len) (m ! i)"
    by (simp add: Find_contains_def mv ms)
  show "find (Find_contains v) m = Some (m ! i)"
    using find_skip_prefix[OF pre, of v "m ! i" "drop (Suc i) m"] c1 split by simp
  show "find (Find_contains (v + len - 1)) m = Some (m ! i)"
    using find_skip_prefix[OF pre, of "v + len - 1" "m ! i" "drop (Suc i) m"] c2 split
    by simp
  show "find (Find_contains (v + len)) m = None"
    using find_skip_prefix[OF pre, of "v + len" "m ! i" "drop (Suc i) m"] c3 split
      post[of "v + len"]
    by (simp add: find_None_list_ex)
qed

text \<open>
  C6, as amended. When an entry is mapped over \<open>[v, v + len)\<close> with \<open>0 < len\<close> and
  \<open>v + len < 2^64\<close>, and no other entry contains \<open>v\<close>, \<open>v + len - 1\<close> or \<open>v + len\<close>,
  then \<^verbatim>\<open>Find\<close> succeeds on \<open>v\<close> and on \<open>v + len - 1\<close> with the five attributes of that
  entry and fails on \<open>v + len\<close>, in both managers. \<^verbatim>\<open>Find\<close> succeeds on an address
  exactly when some entry satisfies \<open>map_vaddr \<le> a < map_vaddr + map_size\<close> (the sum
  taken modulo \<open>2^64\<close>), it returns the attributes of the first such entry, that entry
  has an active mapping, and a list of unmapped physical blocks matches no address.
\<close>

theorem Find_containment:
  "(sole_range pm i v len \<longrightarrow>
      PhysicalMemory_Find pm v = Some (Find_outputs (pm ! i)) \<and>
      PhysicalMemory_Find pm (v + len - 1) = Some (Find_outputs (pm ! i)) \<and>
      PhysicalMemory_Find pm (v + len) = None) \<and>
   (sole_range fm k w n \<longrightarrow>
      FlexibleMemory_Find fm w = Some (Find_outputs (fm ! k)) \<and>
      FlexibleMemory_Find fm (w + n - 1) = Some (Find_outputs (fm ! k)) \<and>
      FlexibleMemory_Find fm (w + n) = None) \<and>
   (PhysicalMemory_Find pm a \<noteq> None) =
     list_ex (\<lambda>b. map_vaddr b \<le> a \<and> a < map_vaddr b + map_size b) pm \<and>
   (FlexibleMemory_Find fm a \<noteq> None) =
     list_ex (\<lambda>b. map_vaddr b \<le> a \<and> a < map_vaddr b + map_size b) fm \<and>
   (PhysicalMemory_Find pm a = Some r \<longrightarrow>
      (\<exists>j < length pm. Find_contains a (pm ! j) \<and> (\<forall>j' < j. \<not> Find_contains a (pm ! j')) \<and>
         (map_vaddr (pm ! j) \<noteq> 0 \<or> map_size (pm ! j) \<noteq> 0) \<and>
         r = (map_vaddr (pm ! j), map_size (pm ! j), prot (pm ! j), mode (pm ! j),
              gpu_mode (pm ! j)))) \<and>
   (FlexibleMemory_Find fm a = Some r' \<longrightarrow>
      (\<exists>j < length fm. Find_contains a (fm ! j) \<and> (\<forall>j' < j. \<not> Find_contains a (fm ! j')) \<and>
         r' = (map_vaddr (fm ! j), map_size (fm ! j), prot (fm ! j), mode (fm ! j),
               gpu_mode (fm ! j)))) \<and>
   (list_all (\<lambda>b. map_vaddr b = 0 \<and> map_size b = 0) pm \<longrightarrow> PhysicalMemory_Find pm a = None)"
proof (intro conjI impI)
  assume s: "sole_range pm i v len"
  from sole_range_find[OF s]
  show "PhysicalMemory_Find pm v = Some (Find_outputs (pm ! i))"
    and "PhysicalMemory_Find pm (v + len - 1) = Some (Find_outputs (pm ! i))"
    and "PhysicalMemory_Find pm (v + len) = None"
    by (simp_all add: PhysicalMemory_Find_def)
next
  assume s: "sole_range fm k w n"
  from sole_range_find[OF s]
  show "FlexibleMemory_Find fm w = Some (Find_outputs (fm ! k))"
    and "FlexibleMemory_Find fm (w + n - 1) = Some (Find_outputs (fm ! k))"
    and "FlexibleMemory_Find fm (w + n) = None"
    by (simp_all add: FlexibleMemory_Find_def)
next
  show "(PhysicalMemory_Find pm a \<noteq> None) =
     list_ex (\<lambda>b. map_vaddr b \<le> a \<and> a < map_vaddr b + map_size b) pm"
    using find_None_list_ex[of "Find_contains a" pm]
    by (simp add: PhysicalMemory_Find_def Find_contains_def[abs_def])
next
  show "(FlexibleMemory_Find fm a \<noteq> None) =
     list_ex (\<lambda>b. map_vaddr b \<le> a \<and> a < map_vaddr b + map_size b) fm"
    using find_None_list_ex[of "Find_contains a" fm]
    by (simp add: FlexibleMemory_Find_def Find_contains_def[abs_def])
next
  assume "PhysicalMemory_Find pm a = Some r"
  then obtain b where b: "find (Find_contains a) pm = Some b" "r = Find_outputs b"
    by (auto simp: PhysicalMemory_Find_def)
  then obtain j where j: "j < length pm" "Find_contains a (pm ! j)" "b = pm ! j"
    "\<forall>j' < j. \<not> Find_contains a (pm ! j')"
    by (auto simp: find_Some_iff)
  from j(2) have "map_vaddr (pm ! j) \<noteq> 0 \<or> map_size (pm ! j) \<noteq> 0"
    by (auto simp: Find_contains_def)
  with b j show "\<exists>j < length pm. Find_contains a (pm ! j) \<and>
         (\<forall>j' < j. \<not> Find_contains a (pm ! j')) \<and>
         (map_vaddr (pm ! j) \<noteq> 0 \<or> map_size (pm ! j) \<noteq> 0) \<and>
         r = (map_vaddr (pm ! j), map_size (pm ! j), prot (pm ! j), mode (pm ! j),
              gpu_mode (pm ! j))"
    by (auto simp: Find_outputs_def)
next
  assume "FlexibleMemory_Find fm a = Some r'"
  then obtain b where "find (Find_contains a) fm = Some b" "r' = Find_outputs b"
    by (auto simp: FlexibleMemory_Find_def)
  then show "\<exists>j < length fm. Find_contains a (fm ! j) \<and> (\<forall>j' < j. \<not> Find_contains a (fm ! j')) \<and>
         r' = (map_vaddr (fm ! j), map_size (fm ! j), prot (fm ! j), mode (fm ! j),
               gpu_mode (fm ! j))"
    by (auto simp: find_Some_iff Find_outputs_def)
next
  assume "list_all (\<lambda>b. map_vaddr b = 0 \<and> map_size b = 0) pm"
  then have "\<not> list_ex (Find_contains a) pm"
    by (auto simp: list_all_iff list_ex_iff Find_contains_def)
  then show "PhysicalMemory_Find pm a = None"
    by (simp add: PhysicalMemory_Find_def find_None_list_ex)
qed

theorem Find_containment_witness:
  "sole_range [Alloc_new_block 0x40 0x10, ex_mapped_block] 1 0x1000 0x10 \<and>
   PhysicalMemory_Find [Alloc_new_block 0x40 0x10, ex_mapped_block] 0x1000 =
     Some (0x1000, 0x10, 0x33, Mode_ReadWrite, Gpu_ReadWrite) \<and>
   PhysicalMemory_Find [Alloc_new_block 0x40 0x10, ex_mapped_block] 0x100F =
     Some (0x1000, 0x10, 0x33, Mode_ReadWrite, Gpu_ReadWrite) \<and>
   PhysicalMemory_Find [Alloc_new_block 0x40 0x10, ex_mapped_block] 0x1010 = None \<and>
   sole_range [ex_flexible_block] 0 0x2000 0x20 \<and>
   FlexibleMemory_Find [ex_flexible_block] 0x2000 = Some (0x2000, 0x20, 1, Mode_Read, Gpu_NoAccess) \<and>
   FlexibleMemory_Find [ex_flexible_block] 0x201F = Some (0x2000, 0x20, 1, Mode_Read, Gpu_NoAccess) \<and>
   FlexibleMemory_Find [ex_flexible_block] 0x2020 = None \<and>
   (\<exists>j < length [Alloc_new_block 0x40 0x10, ex_mapped_block].
      Find_contains 0x1000 ([Alloc_new_block 0x40 0x10, ex_mapped_block] ! j)) \<and>
   (\<exists>j < length [ex_flexible_block]. Find_contains 0x2000 ([ex_flexible_block] ! j)) \<and>
   list_all (\<lambda>b. map_vaddr b = 0 \<and> map_size b = 0) [Alloc_new_block 0x40 0x10] \<and>
   PhysicalMemory_Find [Alloc_new_block 0x40 0x10] 0 = None"
proof -
  have hyps:
    "sole_range [Alloc_new_block 0x40 0x10, ex_mapped_block] 1 0x1000 0x10"
    "sole_range [ex_flexible_block] 0 0x2000 0x20"
    "list_all (\<lambda>b. map_vaddr b = 0 \<and> map_size b = 0) [Alloc_new_block 0x40 0x10]"
    by (simp_all add: sole_range_def Alloc_new_block_def ex_mapped_block_def ex_flexible_block_def
        Find_contains_def RemoveAt_def)
  have outs:
    "Find_outputs ([Alloc_new_block 0x40 0x10, ex_mapped_block] ! 1) =
       (0x1000, 0x10, 0x33, Mode_ReadWrite, Gpu_ReadWrite)"
    "Find_outputs ([ex_flexible_block] ! 0) = (0x2000, 0x20, 1, Mode_Read, Gpu_NoAccess)"
    by (simp_all add: Find_outputs_def ex_mapped_block_def ex_flexible_block_def)
  note ranges =
    Find_containment[where pm = "[Alloc_new_block 0x40 0x10, ex_mapped_block]" and i = 1
      and v = "0x1000" and len = "0x10" and fm = "[ex_flexible_block]" and k = 0
      and w = "0x2000" and n = "0x20" and a = "0x1000"
      and r = "(0x1000, 0x10, 0x33, Mode_ReadWrite, Gpu_ReadWrite)"]
  from hyps outs ranges
  have found:
    "PhysicalMemory_Find [Alloc_new_block 0x40 0x10, ex_mapped_block] 0x1000 =
       Some (0x1000, 0x10, 0x33, Mode_ReadWrite, Gpu_ReadWrite)"
    "PhysicalMemory_Find [Alloc_new_block 0x40 0x10, ex_mapped_block] 0x100F =
       Some (0x1000, 0x10, 0x33, Mode_ReadWrite, Gpu_ReadWrite)"
    "PhysicalMemory_Find [Alloc_new_block 0x40 0x10, ex_mapped_block] 0x1010 = None"
    "FlexibleMemory_Find [ex_flexible_block] 0x2000 = Some (0x2000, 0x20, 1, Mode_Read, Gpu_NoAccess)"
    "FlexibleMemory_Find [ex_flexible_block] 0x201F = Some (0x2000, 0x20, 1, Mode_Read, Gpu_NoAccess)"
    "FlexibleMemory_Find [ex_flexible_block] 0x2020 = None"
    by simp_all
  from found(1) ranges
  have first_pm: "\<exists>j < length [Alloc_new_block 0x40 0x10, ex_mapped_block].
      Find_contains 0x1000 ([Alloc_new_block 0x40 0x10, ex_mapped_block] ! j)"
    by blast
  from found(4)
    Find_containment[where fm = "[ex_flexible_block]" and a = "0x2000"
      and r' = "(0x2000, 0x20, 1, Mode_Read, Gpu_NoAccess)"]
  have first_fm: "\<exists>j < length [ex_flexible_block]. Find_contains 0x2000 ([ex_flexible_block] ! j)"
    by blast
  from hyps(3) Find_containment[where pm = "[Alloc_new_block 0x40 0x10]" and a = 0]
  have none: "PhysicalMemory_Find [Alloc_new_block 0x40 0x10] 0 = None"
    by blast
  from hyps found first_pm first_fm none show ?thesis by blast
qed

text \<open>
  The claim as stated fails for a mapping that ends at the top of the address space
  (\<open>v + len\<close> wraps to 0, so \<open>v\<close> itself is not found), when another mapping starts
  at \<open>v + len\<close> (so \<open>v + len\<close> is found), and for a mapping of length 0.
\<close>

theorem Find_containment_counterexample:
  "FlexibleMemory_Map [] 0xFFFFFFFFFFFFF000 0x1000 3 Mode_ReadWrite Gpu_NoAccess =
     (True, [ex_top_mapping]) \<and>
   FlexibleMemory_Map [ex_flexible_block] 0x2020 0x20 3 Mode_ReadWrite Gpu_NoAccess =
     (True, [ex_flexible_block, ex_adjacent_mapping]) \<and>
   FlexibleMemory_Map [] 0x3000 0 1 Mode_Read Gpu_NoAccess = (True, [ex_empty_mapping]) \<and>
   map_vaddr ex_top_mapping = 0xFFFFFFFFFFFFF000 \<and> map_size ex_top_mapping = 0x1000 \<and>
   FlexibleMemory_Find [ex_top_mapping] 0xFFFFFFFFFFFFF000 = None \<and>
   map_vaddr ex_flexible_block = 0x2000 \<and> map_size ex_flexible_block = 0x20 \<and>
   FlexibleMemory_Find [ex_flexible_block, ex_adjacent_mapping] (0x2000 + 0x20) =
     Some (0x2020, 0x20, 3, Mode_ReadWrite, Gpu_NoAccess) \<and>
   map_vaddr ex_empty_mapping = 0x3000 \<and> map_size ex_empty_mapping = 0 \<and>
   FlexibleMemory_Find [ex_empty_mapping] 0x3000 = None"
  by (simp add: FlexibleMemory_Find_def Find_contains_def Find_outputs_def ex_top_mapping_def
      ex_flexible_block_def ex_adjacent_mapping_def ex_empty_mapping_def FlexibleMemory_Map_def)

subsection \<open>Map followed by Unmap\<close>

lemma Find_empty_range:
  "map_vaddr b = 0 \<Longrightarrow> map_size b = 0 \<Longrightarrow> \<not> Find_contains a b"
  by (simp add: Find_contains_def)

lemma PhysicalMemory_Find_Cons:
  "PhysicalMemory_Find (b # bs) a =
     (if Find_contains a b then Some (Find_outputs b) else PhysicalMemory_Find bs a)"
  by (simp add: PhysicalMemory_Find_def)

lemma Map_Unmap_Find:
  assumes "PhysicalMemory_Map m vaddr phys_addr len pr md gm = (True, m1)"
    and "PhysicalMemory_Unmap m1 vaddr len = (Some g, m2)"
    and "\<not> list_ex (Unmap_match vaddr len) m"
  shows "PhysicalMemory_Find m2 a = PhysicalMemory_Find m a \<and> g = gm"
  using assms
proof (induction m arbitrary: m1 m2)
  case Nil
  then show ?case by simp
next
  case (Cons b bs)
  show ?case
  proof (cases "phys_addr \<ge> start_addr b \<and> phys_addr < start_addr b + size_b b")
    case True
    with Cons.prems(1) have un: "map_vaddr b = 0" "map_size b = 0"
      and m1: "m1 = b\<lparr>map_vaddr := vaddr, map_size := len, prot := pr, mode := md,
                          gpu_mode := gm\<rparr> # bs"
      by (auto split: if_splits)
    from Cons.prems(2) m1 have m2: "m2 = b\<lparr>map_vaddr := 0, map_size := 0, prot := 0,
        mode := Mode_NoAccess, gpu_mode := Gpu_NoAccess\<rparr> # bs" and g: "g = gm"
      by auto
    from un m2 g show ?thesis
      by (simp add: PhysicalMemory_Find_Cons Find_contains_def)
  next
    case False
    with Cons.prems(1) obtain bs1 where bs1: "PhysicalMemory_Map bs vaddr phys_addr len pr md gm = (True, bs1)"
      and m1: "m1 = b # bs1"
      by (auto split: prod.splits)
    from Cons.prems(3) have "\<not> Unmap_match vaddr len b"
      and nbs: "\<not> list_ex (Unmap_match vaddr len) bs"
      by simp_all
    then have nb: "\<not> (map_vaddr b = vaddr \<and> map_size b = len)"
      by (simp add: Unmap_match_def)
    from Cons.prems(2) m1 nb obtain bs2 where bs2: "PhysicalMemory_Unmap bs1 vaddr len = (Some g, bs2)"
      and m2: "m2 = b # bs2"
      by (auto split: prod.splits)
    from Cons.IH[OF bs1 bs2 nbs] m2 show ?thesis
      by (simp add: PhysicalMemory_Find_Cons)
  qed
qed

text \<open>
  C7, as amended. When no block is mapped at exactly \<open>(vaddr, len)\<close> before the call, a
  successful \<^verbatim>\<open>PhysicalMemory::Map\<close> with \<open>(vaddr, len)\<close> followed by a successful
  \<^verbatim>\<open>PhysicalMemory::Unmap\<close> of \<open>(vaddr, len)\<close> leaves a list on which
  \<^verbatim>\<open>PhysicalMemory::Find\<close> answers every address as it did before the
  \<^verbatim>\<open>Map\<close>, and the \<^verbatim>\<open>Unmap\<close> returns the GPU mode the \<^verbatim>\<open>Map\<close> stored.
\<close>

theorem Map_Unmap_round_trip:
  "PhysicalMemory_Map m vaddr phys_addr len pr md gm = (True, m1) \<and>
   PhysicalMemory_Unmap m1 vaddr len = (Some g, m2) \<and>
   \<not> list_ex (Unmap_match vaddr len) m \<longrightarrow>
     (\<forall>a. PhysicalMemory_Find m2 a = PhysicalMemory_Find m a) \<and> g = gm"
  using Map_Unmap_Find[of m vaddr phys_addr len pr md gm m1 g m2] by blast

theorem Map_Unmap_round_trip_witness:
  "PhysicalMemory_Map [ex_mapped_block, Alloc_new_block 0x10 0x10] 0x3000 0x18 0x10 1 Mode_Read
     Gpu_NoAccess =
     (True, [ex_mapped_block, ex_remapped_block\<lparr>map_vaddr := 0x3000\<rparr>]) \<and>
   PhysicalMemory_Unmap [ex_mapped_block, ex_remapped_block\<lparr>map_vaddr := 0x3000\<rparr>] 0x3000 0x10 =
     (Some Gpu_NoAccess, [ex_mapped_block, Alloc_new_block 0x10 0x10]) \<and>
   \<not> list_ex (Unmap_match 0x3000 0x10) [ex_mapped_block, Alloc_new_block 0x10 0x10] \<and>
   (\<forall>a. PhysicalMemory_Find [ex_mapped_block, Alloc_new_block 0x10 0x10] a =
         PhysicalMemory_Find [ex_mapped_block, Alloc_new_block 0x10 0x10] a)"
proof -
  have hyps:
    "PhysicalMemory_Map [ex_mapped_block, Alloc_new_block 0x10 0x10] 0x3000 0x18 0x10 1 Mode_Read
       Gpu_NoAccess =
       (True, [ex_mapped_block, ex_remapped_block\<lparr>map_vaddr := 0x3000\<rparr>])"
    "PhysicalMemory_Unmap [ex_mapped_block, ex_remapped_block\<lparr>map_vaddr := 0x3000\<rparr>] 0x3000 0x10 =
       (Some Gpu_NoAccess, [ex_mapped_block, Alloc_new_block 0x10 0x10])"
    "\<not> list_ex (Unmap_match 0x3000 0x10) [ex_mapped_block, Alloc_new_block 0x10 0x10]"
    by (simp_all add: ex_mapped_block_def ex_remapped_block_def Alloc_new_block_def Unmap_match_def)
  from hyps
    Map_Unmap_round_trip[of "[ex_mapped_block, Alloc_new_block 0x10 0x10]" "0x3000" "0x18" "0x10" 1
      Mode_Read Gpu_NoAccess "[ex_mapped_block, ex_remapped_block\<lparr>map_vaddr := 0x3000\<rparr>]"
      Gpu_NoAccess "[ex_mapped_block, Alloc_new_block 0x10 0x10]"]
  show ?thesis by simp
qed

text \<open>
  The claim as stated fails when an earlier block is already mapped at \<open>(vaddr, len)\<close>:
  \<^verbatim>\<open>Unmap\<close> clears that block, the newly mapped block stays, and \<^verbatim>\<open>Find\<close> on
  \<open>vaddr\<close> returns other attributes than before the \<^verbatim>\<open>Map\<close>.
\<close>

theorem Map_Unmap_round_trip_counterexample:
  "PhysicalMemory_Alloc [] 0 0x100 0x10 0 valid_ptr = (Some 0, [Alloc_new_block 0 0x10]) \<and>
   PhysicalMemory_Alloc [Alloc_new_block 0 0x10] 0 0x100 0x10 0 valid_ptr =
     (Some 0x10, [Alloc_new_block 0 0x10, Alloc_new_block 0x10 0x10]) \<and>
   PhysicalMemory_Map [Alloc_new_block 0 0x10, Alloc_new_block 0x10 0x10] 0x1000 0 0x10 0x33
     Mode_ReadWrite Gpu_ReadWrite = (True, [ex_mapped_block, Alloc_new_block 0x10 0x10]) \<and>
   PhysicalMemory_Map [ex_mapped_block, Alloc_new_block 0x10 0x10] 0x1000 0x18 0x10 1 Mode_Read
     Gpu_NoAccess =
     (True, [ex_mapped_block, ex_remapped_block]) \<and>
   PhysicalMemory_Unmap [ex_mapped_block, ex_remapped_block] 0x1000 0x10 =
     (Some Gpu_ReadWrite, [Unmap_clear ex_mapped_block, ex_remapped_block]) \<and>
   PhysicalMemory_Find [ex_mapped_block, Alloc_new_block 0x10 0x10] 0x1000 =
     Some (0x1000, 0x10, 0x33, Mode_ReadWrite, Gpu_ReadWrite) \<and>
   PhysicalMemory_Find [Unmap_clear ex_mapped_block, ex_remapped_block] 0x1000 =
     Some (0x1000, 0x10, 1, Mode_Read, Gpu_NoAccess)"
  by (simp add: ex_mapped_block_def ex_remapped_block_def Alloc_new_block_def Unmap_clear_def
      PhysicalMemory_Find_def Find_contains_def Find_outputs_def PhysicalMemory_Alloc_def
      get_aligned_pos_def)

subsection \<open>Single mapping per physical block\<close>

lemma PhysicalMemory_Map_refuses:
  "i < length m \<Longrightarrow> Map_inside phys_addr (m ! i) \<Longrightarrow> block_active (m ! i) \<Longrightarrow>
     \<not> list_ex (Map_inside phys_addr) (take i m) \<Longrightarrow>
     PhysicalMemory_Map m vaddr phys_addr len pr md gm = (False, m)"
proof (induction m arbitrary: i)
  case Nil
  then show ?case by simp
next
  case (Cons b bs)
  show ?case
  proof (cases i)
    case 0
    with Cons.prems show ?thesis by (auto simp: Map_inside_def block_active_def)
  next
    case (Suc k)
    with Cons.prems have nb: "\<not> Map_inside phys_addr b" and k: "k < length bs"
      "Map_inside phys_addr (bs ! k)" "block_active (bs ! k)"
      "\<not> list_ex (Map_inside phys_addr) (take k bs)"
      by simp_all
    from Cons.IH[OF k]
    have ih: "PhysicalMemory_Map bs vaddr phys_addr len pr md gm = (False, bs)" .
    from nb have "\<not> (phys_addr \<ge> start_addr b \<and> phys_addr < start_addr b + size_b b)"
      by (simp add: Map_inside_def)
    with ih show ?thesis by simp
  qed
qed

lemma PhysicalMemory_Map_fail_same:
  "PhysicalMemory_Map m vaddr phys_addr len pr md gm = (False, m') \<Longrightarrow> m' = m"
  by (induction m arbitrary: m') (auto split: if_splits prod.splits)

lemma Map_preserves_invariant:
  "list_all block_invariant m \<Longrightarrow> vaddr \<noteq> 0 \<or> len \<noteq> 0 \<Longrightarrow>
     list_all block_invariant (snd (PhysicalMemory_Map m vaddr phys_addr len pr md gm))"
  by (induction m) (auto simp: block_invariant_def block_active_def split: prod.splits)

lemma Unmap_preserves_invariant:
  "list_all block_invariant m \<Longrightarrow> list_all block_invariant (snd (PhysicalMemory_Unmap m vaddr sz))"
  by (induction m) (auto simp: block_invariant_def block_no_mapping_def split: prod.splits)

lemma Alloc_preserves_invariant:
  "list_all block_invariant m \<Longrightarrow>
     list_all block_invariant
       (snd (PhysicalMemory_Alloc m search_start search_end len alignment phys_addr_out))"
  by (simp add: PhysicalMemory_Alloc_def Let_def block_invariant_def block_no_mapping_def
      Alloc_new_block_def)

lemma Release_preserves_invariant:
  "list_all block_invariant m \<Longrightarrow> list_all block_invariant (snd (PhysicalMemory_Release m start len))"
proof -
  assume inv: "list_all block_invariant m"
  have "set (RemoveAt i m) \<subseteq> set m" for i
    by (auto simp: RemoveAt_def dest: in_set_takeD in_set_dropD)
  with inv show ?thesis
    by (auto simp: PhysicalMemory_Release_def list_all_iff split: option.splits)
qed

text \<open>
  C1, as amended. \<^verbatim>\<open>PhysicalMemory::Map\<close> returns false when the first block of the
  list whose physical range holds the address already has an active mapping, and it
  changes no block whenever it returns false. The block invariant (no mapping with both modes \<open>NoAccess\<close>, or an active
  mapping) is preserved by \<^verbatim>\<open>Alloc\<close>, \<^verbatim>\<open>Unmap\<close> and \<^verbatim>\<open>Release\<close>, and by
  \<^verbatim>\<open>Map\<close> when the virtual address or the length is not 0.
\<close>

theorem single_mapping_per_block:
  "(i < length m \<and> Map_inside phys_addr (m ! i) \<and> block_active (m ! i) \<and>
    \<not> list_ex (Map_inside phys_addr) (take i m) \<longrightarrow>
      PhysicalMemory_Map m vaddr phys_addr len pr md gm = (False, m)) \<and>
   (PhysicalMemory_Map m vaddr phys_addr len pr md gm = (False, m') \<longrightarrow> m' = m) \<and>
   (list_all block_invariant m \<longrightarrow>
      list_all block_invariant
        (snd (PhysicalMemory_Alloc m search_start search_end alen alignment phys_addr_out)) \<and>
      list_all block_invariant (snd (PhysicalMemory_Unmap m uvaddr usz)) \<and>
      list_all block_invariant (snd (PhysicalMemory_Release m rstart rlen)) \<and>
      (vaddr \<noteq> 0 \<or> len \<noteq> 0 \<longrightarrow>
         list_all block_invariant (snd (PhysicalMemory_Map m vaddr phys_addr len pr md gm))))"
  using PhysicalMemory_Map_refuses[of i m phys_addr vaddr len pr md gm]
    PhysicalMemory_Map_fail_same[of m vaddr phys_addr len pr md gm m']
    Map_preserves_invariant[of m vaddr len phys_addr pr md gm]
    Unmap_preserves_invariant[of m uvaddr usz]
    Alloc_preserves_invariant[of m search_start search_end alen alignment phys_addr_out]
    Release_preserves_invariant[of m rstart rlen]
  by blast

theorem single_mapping_per_block_witness:
  "Map_inside 8 ([ex_mapped_block, Alloc_new_block 0x10 0x10] ! 0) \<and>
   block_active ([ex_mapped_block, Alloc_new_block 0x10 0x10] ! 0) \<and>
   \<not> list_ex (Map_inside 8) (take 0 [ex_mapped_block, Alloc_new_block 0x10 0x10]) \<and>
   PhysicalMemory_Map [ex_mapped_block, Alloc_new_block 0x10 0x10] 0x5000 8 0x10 1 Mode_Read
     Gpu_NoAccess = (False, [ex_mapped_block, Alloc_new_block 0x10 0x10]) \<and>
   list_all block_invariant [ex_mapped_block, Alloc_new_block 0x10 0x10] \<and>
   list_all block_invariant
     (snd (PhysicalMemory_Alloc [ex_mapped_block, Alloc_new_block 0x10 0x10] 0 0x100 0x10 0
        valid_ptr)) \<and>
   list_all block_invariant
     (snd (PhysicalMemory_Unmap [ex_mapped_block, Alloc_new_block 0x10 0x10] 0x1000 0x10)) \<and>
   list_all block_invariant
     (snd (PhysicalMemory_Release [ex_mapped_block, Alloc_new_block 0x10 0x10] 0 0x10)) \<and>
   list_all block_invariant
     (snd (PhysicalMemory_Map [ex_mapped_block, Alloc_new_block 0x10 0x10] 0x5000 0x18 0x10 1
        Mode_Read Gpu_NoAccess))"
proof -
  have hyps:
    "Map_inside 8 ([ex_mapped_block, Alloc_new_block 0x10 0x10] ! 0)"
    "block_active ([ex_mapped_block, Alloc_new_block 0x10 0x10] ! 0)"
    "\<not> list_ex (Map_inside 8) (take 0 [ex_mapped_block, Alloc_new_block 0x10 0x10])"
    "list_all block_invariant [ex_mapped_block, Alloc_new_block 0x10 0x10]"
    "(0x5000 :: u64) \<noteq> 0"
    by (simp_all add: Map_inside_def block_active_def block_invariant_def block_no_mapping_def
        ex_mapped_block_def Alloc_new_block_def)
  from hyps
    single_mapping_per_block[where i = 0 and m = "[ex_mapped_block, Alloc_new_block 0x10 0x10]"
      and phys_addr = 8 and vaddr = "0x5000" and len = "0x10" and pr = 1 and md = Mode_Read
      and gm = Gpu_NoAccess and m' = "[ex_mapped_block, Alloc_new_block 0x10 0x10]"
      and search_start = 0 and search_end = "0x100" and alen = "0x10" and alignment = 0
      and phys_addr_out = valid_ptr and uvaddr = "0x1000" and usz = "0x10" and rstart = 0
      and rlen = "0x10"]
    single_mapping_per_block[where i = 0 and m = "[ex_mapped_block, Alloc_new_block 0x10 0x10]"
      and phys_addr = "0x18" and vaddr = "0x5000" and len = "0x10" and pr = 1 and md = Mode_Read
      and gm = Gpu_NoAccess and m' = "[]"
      and search_start = 0 and search_end = "0x100" and alen = "0x10" and alignment = 0
      and phys_addr_out = valid_ptr and uvaddr = "0x1000" and usz = "0x10" and rstart = 0
      and rlen = "0x10"]
  show ?thesis by simp
qed

text \<open>
  The claim as stated fails in two ways. \<^verbatim>\<open>Map\<close> with virtual address 0 and length 0
  succeeds on an unmapped block and leaves it with address and size 0 but an access
  mode other than \<open>NoAccess\<close>. And when an alignment makes the round-up wrap around,
  \<^verbatim>\<open>Alloc\<close> returns a block that overlaps an earlier one; \<^verbatim>\<open>Map\<close> on an address
  inside the mapped later block then succeeds on the earlier block.
\<close>

theorem single_mapping_per_block_counterexample:
  "list_all block_invariant [Alloc_new_block 0 0xA] \<and>
   PhysicalMemory_Map [Alloc_new_block 0 0xA] 0 0 0 1 Mode_Read Gpu_NoAccess =
     (True, [(Alloc_new_block 0 0xA)\<lparr>prot := 1, mode := Mode_Read\<rparr>]) \<and>
   \<not> list_all block_invariant [(Alloc_new_block 0 0xA)\<lparr>prot := 1, mode := Mode_Read\<rparr>] \<and>
   PhysicalMemory_Alloc [] 0 0x64 0xA 0 valid_ptr = (Some 0, [Alloc_new_block 0 0xA]) \<and>
   PhysicalMemory_Alloc [Alloc_new_block 0 0xA] 0 0x64 0x14 (- 1) valid_ptr =
     (Some 0, [Alloc_new_block 0 0xA, Alloc_new_block 0 0x14]) \<and>
   PhysicalMemory_Map [Alloc_new_block 0 0xA, Alloc_new_block 0 0x14] 0x1000 0xF 0x14 3
     Mode_ReadWrite Gpu_NoAccess = (True, [Alloc_new_block 0 0xA, ex_overlapping_block]) \<and>
   block_active ex_overlapping_block \<and> Map_inside 5 ex_overlapping_block \<and>
   fst (PhysicalMemory_Map [Alloc_new_block 0 0xA, ex_overlapping_block] 0x2000 5 0xA 3
     Mode_ReadWrite Gpu_NoAccess) = True"
  by (simp add: PhysicalMemory_Alloc_def get_aligned_pos_def Alloc_new_block_def
      ex_overlapping_block_def block_active_def Map_inside_def block_invariant_def
      block_no_mapping_def)

subsection \<open>Alloc\<close>

lemma and_not_eq_minus_and: "(x::u64) AND NOT m = x - (x AND m)"
proof -
  have "NOT x AND (x AND m) = 0"
    by (simp add: bit_eq_iff bit_simps)
  then have "x - (x AND m) = x AND NOT (x AND m)"
    by (rule disjunctive_diff_eq_and_not)
  also have "\<dots> = x AND NOT m"
    by (auto simp: bit_eq_iff bit_simps)
  finally show ?thesis by simp
qed

lemma aligned_not_below:
  fixes p al :: u64
  assumes "al = 0 \<or> unat p + unat (al - 1) < 2 ^ 64"
  shows "p \<le> get_aligned_pos p al"
proof (cases "al = 0")
  case True
  then show ?thesis by (simp add: get_aligned_pos_def)
next
  case False
  with assms have nw: "unat p + unat (al - 1) < 2 ^ 64" by simp
  then have sum: "unat (p + (al - 1)) = unat p + unat (al - 1)"
    using unat_add_lem[of p "al - 1"] by simp
  have le: "unat ((p + (al - 1)) AND (al - 1)) \<le> unat (al - 1)"
    using word_and_le1[of "p + (al - 1)" "al - 1"] by (simp add: word_le_nat_alt)
  have "(p + (al - 1)) AND (al - 1) \<le> p + (al - 1)"
    by (rule word_and_le2)
  then have "unat ((p + (al - 1)) - ((p + (al - 1)) AND (al - 1))) =
      unat (p + (al - 1)) - unat ((p + (al - 1)) AND (al - 1))"
    by (rule unat_sub)
  with sum le have "unat p \<le> unat ((p + (al - 1)) - ((p + (al - 1)) AND (al - 1)))"
    by simp
  moreover from False have "get_aligned_pos p al = (p + (al - 1)) AND NOT (al - 1)"
    by (simp add: get_aligned_pos_def)
  then have "get_aligned_pos p al = (p + (al - 1)) - ((p + (al - 1)) AND (al - 1))"
    by (simp only: and_not_eq_minus_and)
  ultimately show ?thesis
    by (simp only: word_le_nat_alt)
qed

lemma Alloc_free_pos_step:
  "Alloc_free_pos (b # bs) acc = Alloc_free_pos bs (max acc (block_end b))"
proof (cases "block_end b > acc")
  case True
  then have "max acc (block_end b) = block_end b" by (simp add: max_def less_imp_le)
  with True show ?thesis by (simp add: block_end_def Let_def)
next
  case False
  then have "max acc (block_end b) = acc" by (simp add: max_def)
  with False show ?thesis by (simp add: block_end_def Let_def)
qed

lemma Alloc_free_pos_Max:
  "Alloc_free_pos m acc = Max (insert acc (block_end ` set m))"
proof (induction m arbitrary: acc)
  case Nil
  then show ?case by simp
next
  case (Cons b bs)
  have "Alloc_free_pos (b # bs) acc = Alloc_free_pos bs (max acc (block_end b))"
    by (rule Alloc_free_pos_step)
  also have "\<dots> = Max (insert (max acc (block_end b)) (block_end ` set bs))"
    by (rule Cons.IH)
  also have "\<dots> = Max (insert acc (insert (block_end b) (block_end ` set bs)))"
  proof (cases "set bs = {}")
    case True
    then show ?thesis by simp
  next
    case False
    then have ne: "block_end ` set bs \<noteq> {}" by simp
    have fin: "finite (block_end ` set bs)" by simp
    have "Max (insert (max acc (block_end b)) (block_end ` set bs)) =
        max (max acc (block_end b)) (Max (block_end ` set bs))"
      by (rule Max_insert[OF fin ne])
    also have "\<dots> = max acc (max (block_end b) (Max (block_end ` set bs)))"
      by (rule max.assoc)
    also have "\<dots> = max acc (Max (insert (block_end b) (block_end ` set bs)))"
      by (simp only: Max_insert[OF fin ne])
    also have "\<dots> = Max (insert acc (insert (block_end b) (block_end ` set bs)))"
      by (rule Max_insert[symmetric]) simp_all
    finally show ?thesis .
  qed
  finally show ?case by simp
qed

lemma Alloc_free_pos_ge_end:
  "b \<in> set m \<Longrightarrow> block_end b \<le> Alloc_free_pos m acc"
  by (simp add: Alloc_free_pos_Max)

lemma unat_pow2_u64:
  assumes "k < 64"
  shows "unat (2 ^ k :: u64) = 2 ^ k"
proof -
  have "unat (of_nat (2 ^ k) :: u64) = 2 ^ k mod 2 ^ LENGTH(64)"
    by (rule unat_of_nat)
  moreover have "(2::nat) ^ k < 2 ^ LENGTH(64)"
    using assms by (intro power_strict_increasing) simp_all
  ultimately show ?thesis by simp
qed

lemma unat_take_bit_u64: "unat (take_bit k (x :: u64)) = unat x mod 2 ^ k"
  by (metis take_bit_eq_mod unsigned_take_bit_eq)

lemma get_aligned_pos_power_of_two:
  fixes p :: u64
  assumes k: "k < 64" and nw: "unat p + (2 ^ k - 1) < 2 ^ 64"
  shows "unat (get_aligned_pos p (2 ^ k)) = ((unat p + (2 ^ k - 1)) div 2 ^ k) * 2 ^ k"
proof -
  let ?m = "(2 ^ k :: u64) - 1"
  let ?x = "p + ?m"
  from k have ne: "(2 ^ k :: u64) \<noteq> 0" by simp
  then have um: "unat ?m = 2 ^ k - 1"
    by (simp add: unat_minus_one unat_pow2_u64[OF k])
  with nw have ux: "unat ?x = unat p + (2 ^ k - 1)"
    using unat_add_lem[of p ?m] by simp
  have mask: "?m = mask k" by (simp add: mask_eq_decr_exp)
  have "get_aligned_pos p (2 ^ k) = ?x AND NOT ?m"
    using ne by (simp add: get_aligned_pos_def)
  also have "\<dots> = ?x - (?x AND ?m)" by (rule and_not_eq_minus_and)
  also have "\<dots> = ?x - take_bit k ?x" by (simp only: mask take_bit_eq_mask)
  finally have eq: "get_aligned_pos p (2 ^ k) = ?x - take_bit k ?x" .
  have le: "take_bit k ?x \<le> ?x"
    by (simp add: word_le_nat_alt unat_take_bit_u64)
  have "unat (?x - take_bit k ?x) = unat ?x - unat ?x mod 2 ^ k"
    using unat_sub[OF le] by (simp add: unat_take_bit_u64)
  also have "\<dots> = (unat ?x div 2 ^ k) * 2 ^ k"
    by (simp add: minus_mod_eq_div_mult)
  finally show ?thesis by (simp only: eq ux)
qed

lemma PhysicalMemory_Alloc_eq:
  "phys_addr_out \<noteq> nullptr \<Longrightarrow>
     PhysicalMemory_Alloc m search_start search_end len alignment phys_addr_out =
       (let c = get_aligned_pos (max_block_end m) alignment
        in if search_start \<le> c \<and> c + len \<le> search_end
           then (Some c, m @ [Alloc_new_block c len])
           else (None, m))"
  by (simp add: PhysicalMemory_Alloc_def max_block_end_def Alloc_free_pos_Max Let_def)

lemma Alloc_sequence_head:
  assumes "Alloc_sequence m rs = Some (x # xs)" "no_wrap_sequence m rs"
  shows "unat (Alloc_free_pos m 0) \<le> unat (fst x)"
proof (cases rs)
  case Nil
  with assms(1) show ?thesis by simp
next
  case (Cons r rs')
  obtain ss se len al where r: "r = (ss, se, len, al)" by (cases r)
  from assms(1) Cons r have "fst x = get_aligned_pos (Alloc_free_pos m 0) al"
    by (auto simp: PhysicalMemory_Alloc_def Let_def split: if_splits)
  moreover from assms(2) Cons r have "al = 0 \<or> unat (Alloc_free_pos m 0) + unat (al - 1) < 2 ^ 64"
    by (simp add: Let_def)
  ultimately show ?thesis
    using aligned_not_below[of al "Alloc_free_pos m 0"] by (simp add: word_le_nat_alt)
qed

lemma Alloc_free_pos_new_block:
  assumes "unat c + unat len < 2 ^ 64"
  shows "unat c + unat len \<le> unat (Alloc_free_pos (m @ [Alloc_new_block c len]) 0)"
proof -
  have "block_end (Alloc_new_block c len) \<le> Alloc_free_pos (m @ [Alloc_new_block c len]) 0"
    by (rule Alloc_free_pos_ge_end) simp
  moreover have "block_end (Alloc_new_block c len) = c + len"
    by (simp add: block_end_def Alloc_new_block_def)
  moreover from assms have "unat (c + len) = unat c + unat len"
    using unat_add_lem[of c len] by simp
  ultimately show ?thesis by (simp add: word_le_nat_alt)
qed

lemma Alloc_sequence_monotonic:
  "Alloc_sequence m rs = Some res \<Longrightarrow> no_wrap_sequence m rs \<Longrightarrow> successively follows_after res"
proof (induction rs arbitrary: m res)
  case Nil
  then show ?case by simp
next
  case (Cons r rs)
  obtain ss se len al where r: "r = (ss, se, len, al)" by (cases r)
  define c where "c = get_aligned_pos (Alloc_free_pos m 0) al"
  define m1 where "m1 = m @ [Alloc_new_block c len]"
  from Cons.prems(1) r obtain res' where alloc: "PhysicalMemory_Alloc m ss se len al valid_ptr = (Some c, m1)"
    and rest: "Alloc_sequence m1 rs = Some res'" and res: "res = (c, len) # res'"
    by (auto simp: PhysicalMemory_Alloc_def Let_def c_def m1_def split: if_splits)
  from Cons.prems(2) r have nw: "unat c + unat len < 2 ^ 64" and nwr: "no_wrap_sequence m1 rs"
    by (simp_all add: Let_def c_def m1_def)
  from Cons.IH[OF rest nwr] have succ: "successively follows_after res'" .
  show ?case
  proof (cases res')
    case Nil
    with res show ?thesis by simp
  next
    case (Cons x xs)
    from Alloc_sequence_head[OF rest[unfolded Cons] nwr]
    have "unat (Alloc_free_pos m1 0) \<le> unat (fst x)" .
    moreover from Alloc_free_pos_new_block[OF nw, of m]
    have "unat c + unat len \<le> unat (Alloc_free_pos m1 0)" by (simp add: m1_def)
    ultimately have "follows_after (c, len) x" by (simp add: follows_after_def)
    with succ Cons res show ?thesis by simp
  qed
qed

text \<open>
  C2, as amended. \<^verbatim>\<open>PhysicalMemory::Alloc\<close> fails on a null output pointer. With
  a non-null one, its candidate is the maximum of \<open>start_addr + size\<close> (modulo \<open>2^64\<close>)
  over all blocks, 0 if there is none, rounded by \<^verbatim>\<open>get_aligned_pos\<close>: unchanged for
  alignment 0, and the least multiple of the alignment not below it for a power of two
  when the round-up stays below \<open>2^64\<close>. The call succeeds if and only if
  \<open>search_start \<le> candidate\<close> and \<open>candidate + len \<le> search_end\<close> with the sum taken
  modulo \<open>2^64\<close>; it then appends an unmapped block with that start and length and
  returns the candidate, and otherwise leaves the list as it was. In a run of successful
  calls in which neither the round-up nor \<open>candidate + len\<close> passes \<open>2^64\<close>, each
  returned address is at least the previous one plus the previous length.
\<close>

theorem Alloc_bump_allocation:
  "(phys_addr_out = nullptr \<longrightarrow>
      PhysicalMemory_Alloc m search_start search_end len alignment phys_addr_out = (None, m)) \<and>
   (phys_addr_out \<noteq> nullptr \<longrightarrow>
      PhysicalMemory_Alloc m search_start search_end len alignment phys_addr_out =
        (let c = get_aligned_pos (max_block_end m) alignment
         in if search_start \<le> c \<and> c + len \<le> search_end
            then (Some c,
                  m @ [\<lparr>map_vaddr = 0, map_size = 0, prot = 0, mode = Mode_NoAccess,
                        gpu_mode = Gpu_NoAccess, start_addr = c, size_b = len\<rparr>])
            else (None, m))) \<and>
   get_aligned_pos p 0 = p \<and>
   (k < 64 \<and> unat p + (2 ^ k - 1) < 2 ^ 64 \<longrightarrow>
      unat (get_aligned_pos p (2 ^ k)) = ((unat p + (2 ^ k - 1)) div 2 ^ k) * 2 ^ k) \<and>
   (Alloc_sequence m rs = Some res \<and> no_wrap_sequence m rs \<longrightarrow> successively follows_after res)"
proof (intro conjI impI)
  assume "phys_addr_out = nullptr"
  then show "PhysicalMemory_Alloc m search_start search_end len alignment phys_addr_out = (None, m)"
    by (simp add: PhysicalMemory_Alloc_def)
next
  assume "phys_addr_out \<noteq> nullptr"
  then show "PhysicalMemory_Alloc m search_start search_end len alignment phys_addr_out =
        (let c = get_aligned_pos (max_block_end m) alignment
         in if search_start \<le> c \<and> c + len \<le> search_end
            then (Some c,
                  m @ [\<lparr>map_vaddr = 0, map_size = 0, prot = 0, mode = Mode_NoAccess,
                        gpu_mode = Gpu_NoAccess, start_addr = c, size_b = len\<rparr>])
            else (None, m))"
    using PhysicalMemory_Alloc_eq[of phys_addr_out m search_start search_end len alignment]
    by (simp add: Alloc_new_block_def Let_def)
next
  show "get_aligned_pos p 0 = p" by (simp add: get_aligned_pos_def)
next
  assume "k < 64 \<and> unat p + (2 ^ k - 1) < 2 ^ 64"
  then show "unat (get_aligned_pos p (2 ^ k)) = ((unat p + (2 ^ k - 1)) div 2 ^ k) * 2 ^ k"
    using get_aligned_pos_power_of_two[of k p] by simp
next
  assume "Alloc_sequence m rs = Some res \<and> no_wrap_sequence m rs"
  then show "successively follows_after res"
    using Alloc_sequence_monotonic[of m rs res] by simp
qed

theorem Alloc_bump_allocation_witness:
  "PhysicalMemory_Alloc [ex_mapped_block] 0 0x100 0x10 8 nullptr = (None, [ex_mapped_block]) \<and>
   valid_ptr \<noteq> nullptr \<and>
   PhysicalMemory_Alloc [ex_mapped_block] 0 0x100 0x10 8 valid_ptr =
     (Some 0x10, [ex_mapped_block, Alloc_new_block 0x10 0x10]) \<and>
   PhysicalMemory_Alloc [ex_mapped_block] 0 0x18 0x10 8 valid_ptr = (None, [ex_mapped_block]) \<and>
   (3 :: nat) < 64 \<and> unat (0x11 :: u64) + (2 ^ 3 - 1) < 2 ^ 64 \<and>
   unat (get_aligned_pos 0x11 8) = 0x18 \<and>
   Alloc_sequence [ex_mapped_block] [(0, 0x100, 0x10, 0), (0, 0x100, 0x20, 0x10), (0, 0x100, 8, 0)] =
     Some [(0x10, 0x10), (0x20, 0x20), (0x40, 8)] \<and>
   no_wrap_sequence [ex_mapped_block]
     [(0, 0x100, 0x10, 0), (0, 0x100, 0x20, 0x10), (0, 0x100, 8, 0)] \<and>
   successively follows_after [(0x10, 0x10), (0x20, 0x20), (0x40, 8)]"
proof -
  have hyps:
    "valid_ptr \<noteq> nullptr"
    "(3 :: nat) < 64 \<and> unat (0x11 :: u64) + (2 ^ 3 - 1) < 2 ^ 64"
    "Alloc_sequence [ex_mapped_block] [(0, 0x100, 0x10, 0), (0, 0x100, 0x20, 0x10), (0, 0x100, 8, 0)] =
       Some [(0x10, 0x10), (0x20, 0x20), (0x40, 8)]"
    "no_wrap_sequence [ex_mapped_block] [(0, 0x100, 0x10, 0), (0, 0x100, 0x20, 0x10), (0, 0x100, 8, 0)]"
    by (simp_all add: PhysicalMemory_Alloc_def get_aligned_pos_def ex_mapped_block_def
        Alloc_new_block_def)
  have evals:
    "PhysicalMemory_Alloc [ex_mapped_block] 0 0x100 0x10 8 valid_ptr =
       (Some 0x10, [ex_mapped_block, Alloc_new_block 0x10 0x10])"
    "PhysicalMemory_Alloc [ex_mapped_block] 0 0x18 0x10 8 valid_ptr = (None, [ex_mapped_block])"
    "unat (get_aligned_pos 0x11 8) = 0x18"
    by (simp_all add: PhysicalMemory_Alloc_def get_aligned_pos_def ex_mapped_block_def
        Alloc_new_block_def)
  from hyps
    Alloc_bump_allocation[where phys_addr_out = valid_ptr and m = "[ex_mapped_block]"
      and search_start = 0 and search_end = "0x100" and len = "0x10" and alignment = 8
      and p = "0x11" and k = 3
      and rs = "[(0, 0x100, 0x10, 0), (0, 0x100, 0x20, 0x10), (0, 0x100, 8, 0)]"
      and res = "[(0x10, 0x10), (0x20, 0x20), (0x40, 8)]"]
  have "successively follows_after [(0x10, 0x10), (0x20, 0x20), (0x40, 8)]"
    by blast
  moreover from
    Alloc_bump_allocation[where phys_addr_out = nullptr and m = "[ex_mapped_block]"
      and search_start = 0 and search_end = "0x100" and len = "0x10" and alignment = 8]
  have "PhysicalMemory_Alloc [ex_mapped_block] 0 0x100 0x10 8 nullptr = (None, [ex_mapped_block])"
    by blast
  ultimately show ?thesis using hyps evals by simp
qed

text \<open>
  The claim as stated fails where the arithmetic wraps. After a block \<open>[0, 0x64)\<close>, a
  request for \<open>2^64 - 60\<close> bytes in the window \<open>[0, 0x32)\<close> succeeds at the candidate
  0x64, which is not inside the window. And with alignment \<open>2^64 - 1\<close> the round-up of
  0x64 is 0, below the maximum, so the second of two successful calls returns an
  address below the first address plus the first length. For an alignment that is not
  a power of two the mask of \<^verbatim>\<open>get_aligned_pos\<close> does not give a multiple: 4 stays 4 for
  alignment 3.
\<close>

theorem Alloc_bump_allocation_counterexample:
  "PhysicalMemory_Alloc [] 0 0x64 0x64 0 valid_ptr = (Some 0, [Alloc_new_block 0 0x64]) \<and>
   PhysicalMemory_Alloc [Alloc_new_block 0 0x64] 0 0x32 0xFFFFFFFFFFFFFFC4 0 valid_ptr =
     (Some 0x64, [Alloc_new_block 0 0x64, Alloc_new_block 0x64 0xFFFFFFFFFFFFFFC4]) \<and>
   \<not> (0x64 :: u64) < 0x32 \<and>
   Alloc_sequence [] [(0, 0x64, 0x64, 0), (0, 0x64, 0xA, 0xFFFFFFFFFFFFFFFF)] =
     Some [(0, 0x64), (0, 0xA)] \<and>
   \<not> follows_after (0, 0x64) (0, 0xA) \<and>
   max_block_end [Alloc_new_block 0 0x64] = 0x64 \<and>
   get_aligned_pos 0x64 0xFFFFFFFFFFFFFFFF = 0 \<and>
   get_aligned_pos 4 3 = 4 \<and> \<not> (3 :: nat) dvd unat (4 :: u64)"
  by (simp add: PhysicalMemory_Alloc_def get_aligned_pos_def Alloc_new_block_def
      follows_after_def max_block_end_def block_end_def)

subsection \<open>The hole of a released block that is not the last\<close>

lemma get_aligned_pos_0_1: "alignment = 0 \<or> alignment = 1 \<Longrightarrow> get_aligned_pos p alignment = p"
  by (auto simp: get_aligned_pos_def)

lemma RemoveAt_subset: "set (RemoveAt i xs) \<subseteq> set xs"
  by (auto simp: RemoveAt_def dest: in_set_takeD in_set_dropD)

lemma RemoveAt_append: "i < length xs \<Longrightarrow> RemoveAt i (xs @ ys) = RemoveAt i xs @ ys"
  by (simp add: RemoveAt_def)

lemma Release_keeps_last:
  assumes "PhysicalMemory_Release (m @ [Alloc_new_block A len1, b]) A len1 = (Some r, m3)"
  shows "\<exists>i < length (m @ [Alloc_new_block A len1]).
           m3 = RemoveAt i (m @ [Alloc_new_block A len1]) @ [b]"
proof -
  let ?m1 = "m @ [Alloc_new_block A len1]"
  from PhysicalMemory_Release_Some[OF assms]
  obtain i where i: "i < length (m @ [Alloc_new_block A len1, b])"
    and first: "\<forall>j < i. \<not> Release_match A len1 ((m @ [Alloc_new_block A len1, b]) ! j)"
    and m3: "m3 = RemoveAt i (m @ [Alloc_new_block A len1, b])"
    by blast
  have "Release_match A len1 ((m @ [Alloc_new_block A len1, b]) ! length m)"
    by (simp add: Release_match_def Alloc_new_block_def)
  with first have "\<not> length m < i" by blast
  then have "i < length ?m1" by simp
  moreover from this m3 have "m3 = RemoveAt i ?m1 @ [b]"
    using RemoveAt_append[of i ?m1 "[b]"] by simp
  ultimately show ?thesis by blast
qed

lemma non_trailing_candidate:
  assumes a1: "PhysicalMemory_Alloc m ss1 se1 len1 al1 out1 = (Some A, m1)"
    and a2: "PhysicalMemory_Alloc m1 ss2 se2 len2 al2 out2 = (Some B, m2)"
    and al2: "al2 = 0 \<or> al2 = 1"
    and fits: "unat B + unat len2 < 2 ^ 64"
    and rel: "PhysicalMemory_Release m2 A len1 = (Some r, m3)"
  shows "Alloc_free_pos m3 0 = B + len2"
proof -
  from a1 have m1: "m1 = m @ [Alloc_new_block A len1]"
    by (auto simp: PhysicalMemory_Alloc_def Let_def split: if_splits)
  from a2 al2 have B: "B = Alloc_free_pos m1 0" and m2: "m2 = m1 @ [Alloc_new_block B len2]"
    by (auto simp: PhysicalMemory_Alloc_def Let_def get_aligned_pos_0_1 split: if_splits)
  from rel m1 m2 obtain i where m3: "m3 = RemoveAt i m1 @ [Alloc_new_block B len2]"
    using Release_keeps_last[of m A len1 "Alloc_new_block B len2" r m3] by auto
  from fits have "unat (B + len2) = unat B + unat len2"
    using unat_add_lem[of B len2] by simp
  then have ge: "B \<le> B + len2" by (simp add: word_le_nat_alt)
  have e: "block_end (Alloc_new_block B len2) = B + len2"
    by (simp add: block_end_def Alloc_new_block_def)
  have "Max (insert 0 (block_end ` set m3)) = B + len2"
  proof (rule Max_eqI)
    show "finite (insert 0 (block_end ` set m3))" by simp
    show "B + len2 \<in> insert 0 (block_end ` set m3)"
      using e by (simp add: m3 image_iff)
    fix y assume "y \<in> insert 0 (block_end ` set m3)"
    then consider "y = 0" | "y = B + len2" | b where "b \<in> set m1" "y = block_end b"
      using RemoveAt_subset[of i m1] e by (auto simp: m3)
    then show "y \<le> B + len2"
    proof cases
      case 3
      then have "y \<le> B" using Alloc_free_pos_ge_end[of b m1 0] by (simp add: B)
      with ge show ?thesis by simp
    qed simp_all
  qed
  then show ?thesis by (simp add: Alloc_free_pos_Max)
qed

text \<open>
  C5, as amended. Let \<^verbatim>\<open>Alloc\<close> return \<open>A\<close> for length \<open>len1\<close>, then \<open>B\<close> for length
  \<open>len2\<close> with alignment 0 or 1 and with \<open>B + len2\<close> not passing \<open>2^64\<close>, and let
  \<^verbatim>\<open>Release\<close> of \<open>(A, len1)\<close> succeed. Then the next \<^verbatim>\<open>Alloc\<close> with alignment 0 or 1
  and a window that admits \<open>B + len2\<close> returns \<open>B + len2\<close>: the hole at \<open>A\<close> is not
  used again.
\<close>

theorem non_trailing_hole_not_reused:
  "PhysicalMemory_Alloc m ss1 se1 len1 al1 out1 = (Some A, m1) \<and>
   PhysicalMemory_Alloc m1 ss2 se2 len2 al2 out2 = (Some B, m2) \<and>
   (al2 = 0 \<or> al2 = 1) \<and> unat B + unat len2 < 2 ^ 64 \<and>
   PhysicalMemory_Release m2 A len1 = (Some r, m3) \<and>
   (al3 = 0 \<or> al3 = 1) \<and> out3 \<noteq> nullptr \<and> ss3 \<le> B + len2 \<and> B + len2 + len3 \<le> se3 \<longrightarrow>
     PhysicalMemory_Alloc m3 ss3 se3 len3 al3 out3 =
       (Some (B + len2), m3 @ [Alloc_new_block (B + len2) len3])"
proof (intro impI, elim conjE)
  assume a: "PhysicalMemory_Alloc m ss1 se1 len1 al1 out1 = (Some A, m1)"
    "PhysicalMemory_Alloc m1 ss2 se2 len2 al2 out2 = (Some B, m2)"
    "al2 = 0 \<or> al2 = 1" "unat B + unat len2 < 2 ^ 64"
    "PhysicalMemory_Release m2 A len1 = (Some r, m3)"
    and al3: "al3 = 0 \<or> al3 = 1" and out3: "out3 \<noteq> nullptr"
    and w: "ss3 \<le> B + len2" "B + len2 + len3 \<le> se3"
  from non_trailing_candidate[OF a] have "Alloc_free_pos m3 0 = B + len2" .
  with al3 out3 w show "PhysicalMemory_Alloc m3 ss3 se3 len3 al3 out3 =
       (Some (B + len2), m3 @ [Alloc_new_block (B + len2) len3])"
    by (simp add: PhysicalMemory_Alloc_def Let_def get_aligned_pos_0_1)
qed

theorem non_trailing_hole_not_reused_witness:
  "PhysicalMemory_Alloc [ex_mapped_block] 0 0x100 0x10 0 valid_ptr =
     (Some 0x10, [ex_mapped_block, Alloc_new_block 0x10 0x10]) \<and>
   PhysicalMemory_Alloc [ex_mapped_block, Alloc_new_block 0x10 0x10] 0 0x100 0x20 1 valid_ptr =
     (Some 0x20, [ex_mapped_block, Alloc_new_block 0x10 0x10, Alloc_new_block 0x20 0x20]) \<and>
   unat (0x20 :: u64) + unat (0x20 :: u64) < 2 ^ 64 \<and>
   PhysicalMemory_Release [ex_mapped_block, Alloc_new_block 0x10 0x10, Alloc_new_block 0x20 0x20]
     0x10 0x10 = (Some (0, 0, Gpu_NoAccess), [ex_mapped_block, Alloc_new_block 0x20 0x20]) \<and>
   (0 :: u64) \<le> 0x20 + 0x20 \<and> (0x20 :: u64) + 0x20 + 8 \<le> 0x100 \<and>
   PhysicalMemory_Alloc [ex_mapped_block, Alloc_new_block 0x20 0x20] 0 0x100 8 0 valid_ptr =
     (Some 0x40, [ex_mapped_block, Alloc_new_block 0x20 0x20, Alloc_new_block 0x40 8])"
proof -
  have hyps:
    "PhysicalMemory_Alloc [ex_mapped_block] 0 0x100 0x10 0 valid_ptr =
       (Some 0x10, [ex_mapped_block, Alloc_new_block 0x10 0x10])"
    "PhysicalMemory_Alloc [ex_mapped_block, Alloc_new_block 0x10 0x10] 0 0x100 0x20 1 valid_ptr =
       (Some 0x20, [ex_mapped_block, Alloc_new_block 0x10 0x10, Alloc_new_block 0x20 0x20])"
    "unat (0x20 :: u64) + unat (0x20 :: u64) < 2 ^ 64"
    "PhysicalMemory_Release [ex_mapped_block, Alloc_new_block 0x10 0x10, Alloc_new_block 0x20 0x20]
       0x10 0x10 = (Some (0, 0, Gpu_NoAccess), [ex_mapped_block, Alloc_new_block 0x20 0x20])"
    "(0 :: u64) \<le> 0x20 + 0x20 \<and> (0x20 :: u64) + 0x20 + 8 \<le> 0x100"
    "valid_ptr \<noteq> nullptr"
    by (simp_all add: PhysicalMemory_Alloc_def PhysicalMemory_Release_def get_aligned_pos_def
        ex_mapped_block_def Alloc_new_block_def)
  from hyps
    non_trailing_hole_not_reused[where m = "[ex_mapped_block]" and ?ss1.0 = 0 and ?se1.0 = "0x100"
      and ?len1.0 = "0x10" and ?al1.0 = 0 and ?out1.0 = valid_ptr and A = "0x10"
      and ?m1.0 = "[ex_mapped_block, Alloc_new_block 0x10 0x10]"
      and ?ss2.0 = 0 and ?se2.0 = "0x100" and ?len2.0 = "0x20" and ?al2.0 = 1
      and ?out2.0 = valid_ptr and B = "0x20"
      and ?m2.0 = "[ex_mapped_block, Alloc_new_block 0x10 0x10, Alloc_new_block 0x20 0x20]"
      and r = "(0, 0, Gpu_NoAccess)" and ?m3.0 = "[ex_mapped_block, Alloc_new_block 0x20 0x20]"
      and ?al3.0 = 0 and ?out3.0 = valid_ptr and ?ss3.0 = 0 and ?len3.0 = 8 and ?se3.0 = "0x100"]
  show ?thesis by simp
qed

text \<open>
  The claim as stated fails when \<open>B + len2\<close> wraps around \<open>2^64\<close>. After a block
  \<open>[0, 0x60)\<close>, \<^verbatim>\<open>Alloc\<close> returns \<open>A = 0x60\<close> for length 0x10 and then \<open>B = 0x70\<close> for
  length \<open>2^64 - 0x68\<close>, whose end wraps to 8 and so passes the window test. After
  \<^verbatim>\<open>Release\<close> of \<open>(0x60, 0x10)\<close> the highest end left is 0x60, and the next \<^verbatim>\<open>Alloc\<close>
  returns 0x60: other than \<open>B + len2\<close>, and the address of the hole.
\<close>

theorem non_trailing_hole_not_reused_counterexample:
  "PhysicalMemory_Alloc [] 0 0x100 0x60 0 valid_ptr = (Some 0, [Alloc_new_block 0 0x60]) \<and>
   PhysicalMemory_Alloc [Alloc_new_block 0 0x60] 0 0x100 0x10 0 valid_ptr =
     (Some 0x60, [Alloc_new_block 0 0x60, Alloc_new_block 0x60 0x10]) \<and>
   PhysicalMemory_Alloc [Alloc_new_block 0 0x60, Alloc_new_block 0x60 0x10] 0 0x100
     0xFFFFFFFFFFFFFF98 0 valid_ptr =
     (Some 0x70, [Alloc_new_block 0 0x60, Alloc_new_block 0x60 0x10,
                  Alloc_new_block 0x70 0xFFFFFFFFFFFFFF98]) \<and>
   PhysicalMemory_Release
     [Alloc_new_block 0 0x60, Alloc_new_block 0x60 0x10, Alloc_new_block 0x70 0xFFFFFFFFFFFFFF98]
     0x60 0x10 =
     (Some (0, 0, Gpu_NoAccess), [Alloc_new_block 0 0x60, Alloc_new_block 0x70 0xFFFFFFFFFFFFFF98]) \<and>
   PhysicalMemory_Alloc [Alloc_new_block 0 0x60, Alloc_new_block 0x70 0xFFFFFFFFFFFFFF98] 0 0x100 8 0
     valid_ptr =
     (Some 0x60, [Alloc_new_block 0 0x60, Alloc_new_block 0x70 0xFFFFFFFFFFFFFF98,
                  Alloc_new_block 0x60 8]) \<and>
   (0x70 :: u64) + 0xFFFFFFFFFFFFFF98 = 8 \<and> (0x60 :: u64) \<noteq> 8"
  by (simp add: PhysicalMemory_Alloc_def PhysicalMemory_Release_def get_aligned_pos_def
      Alloc_new_block_def)

end
